theory Spec2Isabelle
  imports Complex_Main "HOL-Library.Word"
begin

unbundle bit_operations_syntax

section \<open>Chunk storage (src/world/chunk.cpp, src/world/chunk.h)\<close>

text \<open>
  \<^verbatim>\<open>chunk.cpp\<close> is written against a class declaration that is not among the
  sources (it uses \<^verbatim>\<open>CHUNK_SIZE\<close>, \<^verbatim>\<open>CHUNK_HEIGHT\<close> and an enumeration with the
  enumerators \<^verbatim>\<open>Air\<close>, \<^verbatim>\<open>Grass\<close>, \<^verbatim>\<open>Dirt\<close>, \<^verbatim>\<open>Stone\<close>), while \<^verbatim>\<open>chunk.h\<close>
  declares \<^verbatim>\<open>CHUNK_SIZE_X\<close>, \<^verbatim>\<open>CHUNK_SIZE_Y\<close>, \<^verbatim>\<open>CHUNK_SIZE_Z\<close> and \<^verbatim>\<open>GetIndex\<close>.
  C++ \<^verbatim>\<open>int\<close> is modelled as \<^typ>\<open>int\<close> in the chunk: the index arithmetic is
  evaluated on values guarded by \<^verbatim>\<open>isInBounds\<close>, the neighbour offsets on loop counters
  below 256, so no 32-bit overflow is reachable there. The one unguarded expression,
  the world coordinate \<^verbatim>\<open>chunkX * CHUNK_SIZE + x\<close> of \<^verbatim>\<open>generate\<close>, is only handed to the
  height function; it stays within 32 bits for chunk coordinates of magnitude below
  \<open>2 ^ 27\<close>. The chunk key of world.h, where the width matters, is modelled on words.
\<close>

text \<open>Modelled from the spec: the constant \<^verbatim>\<open>CHUNK_SIZE\<close> used by chunk.cpp is declared
  in a header that is not among the sources; the spec fixes the chunk edge length at 16.\<close>
definition CHUNK_SIZE :: int where
  "CHUNK_SIZE = 16"

text \<open>Modelled from the spec: the constant \<^verbatim>\<open>CHUNK_HEIGHT\<close> used by chunk.cpp is declared
  in a header that is not among the sources; the spec fixes the chunk height at 256.\<close>
definition CHUNK_HEIGHT :: int where
  "CHUNK_HEIGHT = 256"

text \<open>The constants of chunk.h.\<close>
definition CHUNK_SIZE_X :: int where
  "CHUNK_SIZE_X = 16"

definition CHUNK_SIZE_Y :: int where
  "CHUNK_SIZE_Y = 256"

definition CHUNK_SIZE_Z :: int where
  "CHUNK_SIZE_Z = 16"

definition CHUNK_VOLUME :: int where
  "CHUNK_VOLUME = CHUNK_SIZE_X * CHUNK_SIZE_Y * CHUNK_SIZE_Z"

text \<open>Modelled from the spec: the enumeration \<^verbatim>\<open>BlockType\<close> that chunk.cpp uses is
  declared in a header that is not among the sources. chunk.cpp names the enumerators
  \<^verbatim>\<open>Air\<close> (the spec's air sentinel), \<^verbatim>\<open>Grass\<close> (surface), \<^verbatim>\<open>Dirt\<close> (soil) and
  \<^verbatim>\<open>Stone\<close> (fill); every further enumerator is \<open>OtherBlock n\<close>.\<close>
datatype BlockType = Air | Grass | Dirt | Stone | OtherBlock nat

text \<open>The fields of the class that chunk.cpp implements. \<open>world\<close> is the address held
  by the \<^verbatim>\<open>World*\<close> member; \<open>vao\<close>, \<open>vbo\<close>, \<open>ebo\<close> are OpenGL object names.\<close>
record Chunk =
  chunkX :: int
  chunkY :: int
  chunkZ :: int
  world :: nat
  blocks :: "BlockType list"
  meshDirty :: bool
  meshBuilt :: bool
  vao :: nat
  vbo :: nat
  ebo :: nat
  vertexCount :: nat
  indexCount :: nat

text \<open>\<^verbatim>\<open>Chunk::Chunk\<close>: the member initialiser list.\<close>
definition Chunk_new :: "int \<Rightarrow> int \<Rightarrow> int \<Rightarrow> nat \<Rightarrow> Chunk" where
  "Chunk_new cx cy cz w =
     \<lparr> chunkX = cx, chunkY = cy, chunkZ = cz, world = w,
       blocks = replicate (nat (CHUNK_SIZE * CHUNK_SIZE * CHUNK_HEIGHT)) Air,
       meshDirty = True, meshBuilt = False, vao = 0, vbo = 0, ebo = 0,
       vertexCount = 0, indexCount = 0 \<rparr>"

definition isInBounds :: "int \<Rightarrow> int \<Rightarrow> int \<Rightarrow> bool" where
  "isInBounds x y z \<longleftrightarrow>
     x \<ge> 0 \<and> x < CHUNK_SIZE \<and> y \<ge> 0 \<and> y < CHUNK_HEIGHT \<and> z \<ge> 0 \<and> z < CHUNK_SIZE"

definition getBlockIndex :: "int \<Rightarrow> int \<Rightarrow> int \<Rightarrow> int" where
  "getBlockIndex x y z = x + CHUNK_SIZE * (z + CHUNK_SIZE * y)"

text \<open>\<^verbatim>\<open>Chunk::GetIndex\<close> of chunk.h.\<close>
definition GetIndex :: "int \<Rightarrow> int \<Rightarrow> int \<Rightarrow> int" where
  "GetIndex x y z = y * (CHUNK_SIZE_X * CHUNK_SIZE_Z) + z * CHUNK_SIZE_X + x"

text \<open>\<^verbatim>\<open>Chunk::IsInBounds\<close> of chunk.h.\<close>
definition IsInBounds :: "int \<Rightarrow> int \<Rightarrow> int \<Rightarrow> bool" where
  "IsInBounds x y z \<longleftrightarrow>
     x \<ge> 0 \<and> x < CHUNK_SIZE_X \<and> y \<ge> 0 \<and> y < CHUNK_SIZE_Y \<and> z \<ge> 0 \<and> z < CHUNK_SIZE_Z"

definition getBlock :: "Chunk \<Rightarrow> int \<Rightarrow> int \<Rightarrow> int \<Rightarrow> BlockType" where
  "getBlock c x y z =
     (if isInBounds x y z then blocks c ! nat (getBlockIndex x y z) else Air)"

definition setBlock :: "Chunk \<Rightarrow> int \<Rightarrow> int \<Rightarrow> int \<Rightarrow> BlockType \<Rightarrow> Chunk" where
  "setBlock c x y z type =
     (if isInBounds x y z
      then c\<lparr> blocks := (blocks c)[nat (getBlockIndex x y z) := type], meshDirty := True \<rparr>
      else c)"

text \<open>\<^verbatim>\<open>Chunk::markDirty\<close>.\<close>
definition markDirty :: "Chunk \<Rightarrow> Chunk" where
  "markDirty c = c\<lparr> meshDirty := True \<rparr>"

text \<open>The block vector is sized by the constructor and never resized: every chunk the
  program can hold has \<^verbatim>\<open>CHUNK_SIZE * CHUNK_SIZE * CHUNK_HEIGHT\<close> slots.\<close>
definition chunk_sized :: "Chunk \<Rightarrow> bool" where
  "chunk_sized c \<longleftrightarrow> int (length (blocks c)) = CHUNK_SIZE * CHUNK_SIZE * CHUNK_HEIGHT"

section \<open>Terrain generation (chunk.cpp, lines 47 to 90)\<close>

text \<open>\<^verbatim>\<open>std::clamp(v, lo, hi)\<close>.\<close>
definition clamp :: "int \<Rightarrow> int \<Rightarrow> int \<Rightarrow> int" where
  "clamp v lo hi = (if v < lo then lo else if hi < v then hi else v)"

text \<open>
  \<^verbatim>\<open>Chunk::generateHeight\<close>. The type \<open>'f\<close> stands for \<^verbatim>\<open>float\<close>. The sum of the three
  sinusoidal terms and its conversion \<^verbatim>\<open>static_cast<int>(height)\<close> are floating-point
  computations; they are the parameter \<open>sineSum\<close>, so that everything proved holds for
  whatever integer that conversion yields. The function reads no member of the chunk.
\<close>
definition generateHeight :: "('f \<Rightarrow> 'f \<Rightarrow> int) \<Rightarrow> 'f \<Rightarrow> 'f \<Rightarrow> int" where
  "generateHeight sineSum x z = clamp (sineSum x z) 1 (CHUNK_HEIGHT - 1)"

text \<open>
  \<^verbatim>\<open>Chunk::generate\<close>: the three nested loops, innermost over \<open>y\<close>, then the final
  \<^verbatim>\<open>meshDirty = true\<close>. \<open>toFloat\<close> is the conversion of the \<^verbatim>\<open>int\<close> world coordinate
  to \<^verbatim>\<open>float\<close>.
\<close>
definition generate :: "(int \<Rightarrow> 'f) \<Rightarrow> ('f \<Rightarrow> 'f \<Rightarrow> int) \<Rightarrow> Chunk \<Rightarrow> Chunk" where
  "generate toFloat sineSum c0 =
     (fold (\<lambda>x. fold (\<lambda>z c.
        let worldX = toFloat (chunkX c * CHUNK_SIZE + x);
            worldZ = toFloat (chunkZ c * CHUNK_SIZE + z);
            height = generateHeight sineSum worldX worldZ
        in fold (\<lambda>y c.
             let blockType =
                   (if y < height - 3 then Stone
                    else if y < height then Dirt
                    else if y = height then Grass
                    else Air)
             in setBlock c x y z blockType)
           [0..CHUNK_HEIGHT - 1] c)
        [0..CHUNK_SIZE - 1])
      [0..CHUNK_SIZE - 1] c0) \<lparr> meshDirty := True \<rparr>"

section \<open>The OpenGL calls of buildMesh\<close>

text \<open>
  OpenGL is an external library. Its state is modelled as far as \<^verbatim>\<open>buildMesh\<close> touches
  it: how many vertex-array and buffer names have been generated (a generated name is
  the next unused positive number), what is bound, the data store of every buffer and
  the attribute layout of every vertex array. A \<^verbatim>\<open>float\<close> of the vertex buffer is a
  \<^typ>\<open>rat\<close>: every value that \<^verbatim>\<open>addFace\<close> stores is an integer between -1 and 257 or
  a multiple of 1/16 between 0 and 2, all of them exact in binary32.
\<close>

datatype gl_target = GL_ARRAY_BUFFER | GL_ELEMENT_ARRAY_BUFFER

datatype gl_data = FloatData "rat list" | UIntData "nat list"

record GL =
  vertexArrayNames :: nat
  bufferNames :: nat
  boundVertexArray :: nat
  boundBuffer :: "gl_target \<Rightarrow> nat"
  bufferStore :: "nat \<Rightarrow> gl_data option"
  attribPointer :: "nat \<times> nat \<Rightarrow> (nat \<times> nat \<times> nat) option"
  attribEnabled :: "nat \<times> nat \<Rightarrow> bool"

definition glGenVertexArrays :: "GL \<Rightarrow> nat \<times> GL" where
  "glGenVertexArrays gl =
     (Suc (vertexArrayNames gl), gl\<lparr> vertexArrayNames := Suc (vertexArrayNames gl) \<rparr>)"

definition glGenBuffers :: "GL \<Rightarrow> nat \<times> GL" where
  "glGenBuffers gl = (Suc (bufferNames gl), gl\<lparr> bufferNames := Suc (bufferNames gl) \<rparr>)"

definition glBindVertexArray :: "nat \<Rightarrow> GL \<Rightarrow> GL" where
  "glBindVertexArray name gl = gl\<lparr> boundVertexArray := name \<rparr>"

definition glBindBuffer :: "gl_target \<Rightarrow> nat \<Rightarrow> GL \<Rightarrow> GL" where
  "glBindBuffer target name gl = gl\<lparr> boundBuffer := (boundBuffer gl)(target := name) \<rparr>"

text \<open>With no buffer bound to the target (name 0) the call is an error and stores nothing.\<close>
definition glBufferData :: "gl_target \<Rightarrow> gl_data \<Rightarrow> GL \<Rightarrow> GL" where
  "glBufferData target d gl =
     (if boundBuffer gl target = 0 then gl
      else gl\<lparr> bufferStore := (bufferStore gl)(boundBuffer gl target \<mapsto> d) \<rparr>)"

text \<open>Arguments: attribute index, component count, stride and offset in bytes.\<close>
definition glVertexAttribPointer :: "nat \<Rightarrow> nat \<Rightarrow> nat \<Rightarrow> nat \<Rightarrow> GL \<Rightarrow> GL" where
  "glVertexAttribPointer index n stride offset gl =
     gl\<lparr> attribPointer :=
           (attribPointer gl)((boundVertexArray gl, index) \<mapsto> (n, stride, offset)) \<rparr>"

definition glEnableVertexAttribArray :: "nat \<Rightarrow> GL \<Rightarrow> GL" where
  "glEnableVertexAttribArray index gl =
     gl\<lparr> attribEnabled := (attribEnabled gl)((boundVertexArray gl, index) := True) \<rparr>"

text \<open>A context in which nothing has been generated, bound or stored.\<close>
definition gl_init :: GL where
  "gl_init = \<lparr> vertexArrayNames = 0, bufferNames = 0, boundVertexArray = 0,
               boundBuffer = (\<lambda>_. 0), bufferStore = (\<lambda>_. None),
               attribPointer = (\<lambda>_. None), attribEnabled = (\<lambda>_. False) \<rparr>"

section \<open>Meshing (chunk.cpp, lines 93 to 284)\<close>

text \<open>\<^verbatim>\<open>Chunk::getTextureCoord\<close>; the pair is the \<^verbatim>\<open>glm::vec2\<close>.\<close>
definition getTextureCoord :: "BlockType \<Rightarrow> int \<Rightarrow> rat \<times> rat" where
  "getTextureCoord blockType face =
     (let texSize = 1 / 16
      in case blockType of
           Grass \<Rightarrow> (0 * texSize, 0 * texSize)
         | Dirt \<Rightarrow> (2 * texSize, 0 * texSize)
         | Stone \<Rightarrow> (1 * texSize, 0 * texSize)
         | _ \<Rightarrow> (0 * texSize, 0 * texSize))"

text \<open>
  \<^verbatim>\<open>Chunk::addFace\<close>. The mesh under construction is the pair of the vertex vector and
  the index vector. A \<open>face\<close> outside 0 to 5 matches no case of the switch: no vertex is
  appended, the six indices still are.
\<close>
definition addFace ::
  "int \<Rightarrow> int \<Rightarrow> int \<Rightarrow> int \<Rightarrow> BlockType \<Rightarrow> rat list \<times> nat list \<Rightarrow> rat list \<times> nat list" where
  "addFace xi yi zi face blockType m =
     (case m of (vertices, indices) \<Rightarrow>
      let baseIndex = length vertices div 8;
          texX = fst (getTextureCoord blockType face);
          texY = snd (getTextureCoord blockType face);
          x = of_int xi; y = of_int yi; z = of_int zi;
          faceVertices =
            (if face = 0 then
               [x,     y,     z + 1, texX,     texY,     0, 0, 1,
                x + 1, y,     z + 1, texX + 1, texY,     0, 0, 1,
                x + 1, y + 1, z + 1, texX + 1, texY + 1, 0, 0, 1,
                x,     y + 1, z + 1, texX,     texY + 1, 0, 0, 1]
             else if face = 1 then
               [x + 1, y,     z,     texX,     texY,     0, 0, -1,
                x,     y,     z,     texX + 1, texY,     0, 0, -1,
                x,     y + 1, z,     texX + 1, texY + 1, 0, 0, -1,
                x + 1, y + 1, z,     texX,     texY + 1, 0, 0, -1]
             else if face = 2 then
               [x,     y,     z,     texX,     texY,     -1, 0, 0,
                x,     y,     z + 1, texX + 1, texY,     -1, 0, 0,
                x,     y + 1, z + 1, texX + 1, texY + 1, -1, 0, 0,
                x,     y + 1, z,     texX,     texY + 1, -1, 0, 0]
             else if face = 3 then
               [x + 1, y,     z + 1, texX,     texY,     1, 0, 0,
                x + 1, y,     z,     texX + 1, texY,     1, 0, 0,
                x + 1, y + 1, z,     texX + 1, texY + 1, 1, 0, 0,
                x + 1, y + 1, z + 1, texX,     texY + 1, 1, 0, 0]
             else if face = 4 then
               [x,     y,     z + 1, texX,     texY,     0, -1, 0,
                x,     y,     z,     texX + 1, texY,     0, -1, 0,
                x + 1, y,     z,     texX + 1, texY + 1, 0, -1, 0,
                x + 1, y,     z + 1, texX,     texY + 1, 0, -1, 0]
             else if face = 5 then
               [x,     y + 1, z,     texX,     texY,     0, 1, 0,
                x,     y + 1, z + 1, texX + 1, texY,     0, 1, 0,
                x + 1, y + 1, z + 1, texX + 1, texY + 1, 0, 1, 0,
                x + 1, y + 1, z,     texX,     texY + 1, 0, 1, 0]
             else [])
      in (vertices @ faceVertices,
          indices @ [baseIndex, baseIndex + 1, baseIndex + 2,
                     baseIndex, baseIndex + 2, baseIndex + 3]))"

text \<open>\<^verbatim>\<open>Chunk::addFaceIfExposed\<close>: the neighbour is read with the chunk's own
  \<^verbatim>\<open>getBlock\<close>.\<close>
definition addFaceIfExposed ::
  "Chunk \<Rightarrow> int \<Rightarrow> int \<Rightarrow> int \<Rightarrow> BlockType \<Rightarrow> int \<Rightarrow> rat list \<times> nat list
     \<Rightarrow> rat list \<times> nat list" where
  "addFaceIfExposed c x y z blockType face m =
     (let (nx, ny, nz) =
            (if face = 0 then (x, y, z + 1)
             else if face = 1 then (x, y, z - 1)
             else if face = 2 then (x - 1, y, z)
             else if face = 3 then (x + 1, y, z)
             else if face = 4 then (x, y - 1, z)
             else if face = 5 then (x, y + 1, z)
             else (x, y, z));
          neighborBlock = getBlock c nx ny nz
      in if neighborBlock \<noteq> Air then m else addFace x y z face blockType m)"

text \<open>The body of the innermost loop of \<^verbatim>\<open>buildMesh\<close> (lines 105 to 117).\<close>
definition meshBlock ::
  "Chunk \<Rightarrow> int \<Rightarrow> int \<Rightarrow> int \<Rightarrow> rat list \<times> nat list \<Rightarrow> rat list \<times> nat list" where
  "meshBlock c x y z m =
     (let blockType = getBlock c x y z
      in if blockType = Air then m
         else addFaceIfExposed c x y z blockType 5
               (addFaceIfExposed c x y z blockType 4
                 (addFaceIfExposed c x y z blockType 3
                   (addFaceIfExposed c x y z blockType 2
                     (addFaceIfExposed c x y z blockType 1
                       (addFaceIfExposed c x y z blockType 0 m))))))"

text \<open>The loop nest of \<^verbatim>\<open>buildMesh\<close> (lines 98 to 120), from empty vectors.\<close>
definition meshScan :: "Chunk \<Rightarrow> rat list \<times> nat list" where
  "meshScan c =
     fold (\<lambda>x. fold (\<lambda>y. fold (\<lambda>z. meshBlock c x y z) [0..CHUNK_SIZE - 1])
                 [0..CHUNK_HEIGHT - 1])
          [0..CHUNK_SIZE - 1] ([], [])"

text \<open>\<^verbatim>\<open>Chunk::buildMesh\<close> on the chunk and the OpenGL context. \<^verbatim>\<open>sizeof(float)\<close> is 4.\<close>
definition buildMesh :: "Chunk \<times> GL \<Rightarrow> Chunk \<times> GL" where
  "buildMesh s =
     (case s of (c, gl) \<Rightarrow>
      if \<not> meshDirty c \<and> meshBuilt c then (c, gl)
      else
        let (vertices, indices) = meshScan c;
            c = c\<lparr> vertexCount := length vertices div 8, indexCount := length indices \<rparr>;
            (c, gl) =
              (if \<not> meshBuilt c then
                 let (a, gl) = glGenVertexArrays gl;
                     (b, gl) = glGenBuffers gl;
                     (e, gl) = glGenBuffers gl
                 in (c\<lparr> vao := a, vbo := b, ebo := e \<rparr>, gl)
               else (c, gl));
            gl = glBindVertexArray (vao c) gl;
            gl = glBindBuffer GL_ARRAY_BUFFER (vbo c) gl;
            gl = glBufferData GL_ARRAY_BUFFER (FloatData vertices) gl;
            gl = glBindBuffer GL_ELEMENT_ARRAY_BUFFER (ebo c) gl;
            gl = glBufferData GL_ELEMENT_ARRAY_BUFFER (UIntData indices) gl;
            gl = glVertexAttribPointer 0 3 (8 * 4) 0 gl;
            gl = glEnableVertexAttribArray 0 gl;
            gl = glVertexAttribPointer 1 2 (8 * 4) (3 * 4) gl;
            gl = glEnableVertexAttribArray 1 gl;
            gl = glVertexAttribPointer 2 3 (8 * 4) (5 * 4) gl;
            gl = glEnableVertexAttribArray 2 gl;
            gl = glBindBuffer GL_ARRAY_BUFFER 0 gl;
            gl = glBindVertexArray 0 gl
        in (c\<lparr> meshDirty := False, meshBuilt := True \<rparr>, gl))"

text \<open>\<^verbatim>\<open>Chunk::update\<close>.\<close>
definition update :: "Chunk \<times> GL \<Rightarrow> Chunk \<times> GL" where
  "update s = (if meshDirty (fst s) then buildMesh s else s)"

section \<open>Chunk keys (src/world/world.h)\<close>

text \<open>Modelled from the spec: \<^verbatim>\<open>World::chunkKey\<close> is declared in world.h
  (\<^verbatim>\<open>static long long chunkKey(int chunkX, int chunkZ)\<close>) and its body is not among the
  sources. The header documents the key format as
  \<^verbatim>\<open>(chunkX << 16) | (chunkZ & 0xFFFF)\<close>, the spec as packing \<open>chunkZ\<close> into an unsigned
  16-bit field. The expression is evaluated on the 32-bit \<^verbatim>\<open>int\<close> arguments (the shift
  wraps at 32 bits) and the result is widened, with its sign, to the 64-bit
  \<^verbatim>\<open>long long\<close>; \<open>sint\<close> reads the signed value of an argument.\<close>
definition chunkKey :: "32 word \<Rightarrow> 32 word \<Rightarrow> 64 word" where
  "chunkKey cx cz = scast (push_bit 16 cx OR (cz AND 0xFFFF))"

section \<open>Notions of the specification\<close>

text \<open>The valid coordinate cube \<open>[0,16) \<times> [0,256) \<times> [0,16)\<close> of local coordinates.\<close>
definition coordinateCube :: "(int \<times> int \<times> int) set" where
  "coordinateCube = {(x, y, z). 0 \<le> x \<and> x < 16 \<and> 0 \<le> y \<and> y < 256 \<and> 0 \<le> z \<and> z < 16}"

text \<open>What \<^verbatim>\<open>getBlock\<close> returns at a coordinate triple.\<close>
definition blockAt :: "Chunk \<Rightarrow> int \<times> int \<times> int \<Rightarrow> BlockType" where
  "blockAt c p = (case p of (x, y, z) \<Rightarrow> getBlock c x y z)"

text \<open>The cell adjacent to \<open>(x, y, z)\<close> across a face: one unit along the face's axis, with
  the numbering of \<^verbatim>\<open>buildMesh\<close> (0 front \<open>+z\<close>, 1 back \<open>-z\<close>, 2 left \<open>-x\<close>, 3 right \<open>+x\<close>,
  4 bottom \<open>-y\<close>, 5 top \<open>+y\<close>). A number that is no face leaves the coordinate as it is.\<close>
definition faceNeighbor :: "int \<Rightarrow> int \<Rightarrow> int \<Rightarrow> int \<Rightarrow> int \<times> int \<times> int" where
  "faceNeighbor x y z face =
     (if face = 0 then (x, y, z + 1)
      else if face = 1 then (x, y, z - 1)
      else if face = 2 then (x - 1, y, z)
      else if face = 3 then (x + 1, y, z)
      else if face = 4 then (x, y - 1, z)
      else if face = 5 then (x, y + 1, z)
      else (x, y, z))"

text \<open>The block the chunk itself reports for that adjacent cell; air when the cell lies
  outside the chunk.\<close>
definition neighborBlock :: "Chunk \<Rightarrow> int \<Rightarrow> int \<Rightarrow> int \<Rightarrow> int \<Rightarrow> BlockType" where
  "neighborBlock c x y z face = blockAt c (faceNeighbor x y z face)"

text \<open>The number of the six faces of the cell \<open>(x, y, z)\<close> whose adjacent cell is air.\<close>
definition exposedCount :: "Chunk \<Rightarrow> int \<Rightarrow> int \<Rightarrow> int \<Rightarrow> nat" where
  "exposedCount c x y z =
     sum_list (map (\<lambda>face. if neighborBlock c x y z face = Air then 1 else 0) [0, 1, 2, 3, 4, 5])"

text \<open>The number of faces the scan emits for the cell \<open>(x, y, z)\<close>: none for an air cell, one
  per air neighbour otherwise.\<close>
definition blockFaces :: "Chunk \<Rightarrow> int \<Rightarrow> int \<Rightarrow> int \<Rightarrow> nat" where
  "blockFaces c x y z = (if getBlock c x y z = Air then 0 else exposedCount c x y z)"

text \<open>The number of faces of the whole chunk: the sum over the cells of the coordinate cube.\<close>
definition totalFaces :: "Chunk \<Rightarrow> nat" where
  "totalFaces c = (\<Sum>(x, y, z) \<in> coordinateCube. blockFaces c x y z)"

text \<open>The cells of the coordinate cube in the order of the loops of \<^verbatim>\<open>buildMesh\<close>: \<open>x\<close>
  outermost, then \<open>y\<close>, then \<open>z\<close>.\<close>
definition scanCells :: "(int \<times> int \<times> int) list" where
  "scanCells = List.product [0..15] (List.product [0..255] [0..15])"

text \<open>Every face of every cell, in scan order, faces 0 to 5 within a cell.\<close>
definition scanFaces :: "((int \<times> int \<times> int) \<times> int) list" where
  "scanFaces = List.product scanCells [0, 1, 2, 3, 4, 5]"

text \<open>The occlusion rule: the face of a cell is exposed when the cell is not air and the
  adjacent cell is air.\<close>
definition faceExposed :: "Chunk \<Rightarrow> (int \<times> int \<times> int) \<times> int \<Rightarrow> bool" where
  "faceExposed c pf =
     (case pf of ((x, y, z), face) \<Rightarrow>
        getBlock c x y z \<noteq> Air \<and> neighborBlock c x y z face = Air)"

text \<open>The exposed faces of the chunk, in scan order.\<close>
definition emittedFaces :: "Chunk \<Rightarrow> ((int \<times> int \<times> int) \<times> int) list" where
  "emittedFaces c = filter (faceExposed c) scanFaces"

text \<open>The four vertices and six indices \<^verbatim>\<open>addFace\<close> appends for a face of a cell, textured by
  the block in that cell.\<close>
definition emitFace ::
  "Chunk \<Rightarrow> (int \<times> int \<times> int) \<times> int \<Rightarrow> rat list \<times> nat list \<Rightarrow> rat list \<times> nat list" where
  "emitFace c pf m =
     (case pf of ((x, y, z), face) \<Rightarrow> addFace x y z face (getBlock c x y z) m)"

section \<open>The loops of generate, named for the proofs\<close>

text \<open>The if-chain of the innermost loop body of \<^verbatim>\<open>generate\<close>.\<close>
definition terrainLayer :: "int \<Rightarrow> int \<Rightarrow> BlockType" where
  "terrainLayer height y =
     (if y < height - 3 then Stone
      else if y < height then Dirt
      else if y = height then Grass
      else Air)"

text \<open>The \<^verbatim>\<open>height\<close> that \<^verbatim>\<open>generate\<close> computes for the column \<open>(x, z)\<close> of the chunk at
  chunk coordinates \<open>(cx, cz)\<close>.\<close>
definition columnHeight ::
  "(int \<Rightarrow> 'f) \<Rightarrow> ('f \<Rightarrow> 'f \<Rightarrow> int) \<Rightarrow> int \<Rightarrow> int \<Rightarrow> int \<Rightarrow> int \<Rightarrow> int" where
  "columnHeight toFloat sineSum cx cz x z =
     generateHeight sineSum (toFloat (cx * CHUNK_SIZE + x)) (toFloat (cz * CHUNK_SIZE + z))"

text \<open>The body of the loop over \<open>z\<close>: one column is filled.\<close>
definition generateColumn ::
  "(int \<Rightarrow> 'f) \<Rightarrow> ('f \<Rightarrow> 'f \<Rightarrow> int) \<Rightarrow> int \<Rightarrow> int \<Rightarrow> Chunk \<Rightarrow> Chunk" where
  "generateColumn toFloat sineSum x z c =
     (let height = columnHeight toFloat sineSum (chunkX c) (chunkZ c) x z
      in fold (\<lambda>y c. setBlock c x y z (terrainLayer height y)) [0..CHUNK_HEIGHT - 1] c)"

text \<open>The body of the loop over \<open>x\<close>: the sixteen columns with that \<open>x\<close> are filled.\<close>
definition generateSlice ::
  "(int \<Rightarrow> 'f) \<Rightarrow> ('f \<Rightarrow> 'f \<Rightarrow> int) \<Rightarrow> int \<Rightarrow> Chunk \<Rightarrow> Chunk" where
  "generateSlice toFloat sineSum x c =
     fold (\<lambda>z c. generateColumn toFloat sineSum x z c) [0..CHUNK_SIZE - 1] c"

section \<open>Storage lemmas\<close>

lemma Chunk_new_sized: "chunk_sized (Chunk_new cx cy cz w)"
  by (simp add: chunk_sized_def Chunk_new_def CHUNK_SIZE_def CHUNK_HEIGHT_def)

lemma setBlock_sized: "chunk_sized c \<Longrightarrow> chunk_sized (setBlock c x y z t)"
  by (simp add: chunk_sized_def setBlock_def)

lemma pair_inj:
  fixes a b a' b' :: int
  assumes "0 \<le> a" "a < 16" "0 \<le> a'" "a' < 16" "a + 16 * b = a' + 16 * b'"
  shows "a = a' \<and> b = b'"
proof -
  have "(a + 16 * b) mod 16 = a mod 16" "(a' + 16 * b') mod 16 = a' mod 16"
    by (rule mod_mult_self2)+
  then have "a mod 16 = a' mod 16" using assms(5) by metis
  then have "a = a'" using assms(1-4) by simp
  then show ?thesis using assms(5) by simp
qed

lemma index_range:
  "isInBounds x y z \<Longrightarrow> 0 \<le> getBlockIndex x y z \<and> getBlockIndex x y z < 65536"
  by (simp add: isInBounds_def getBlockIndex_def CHUNK_SIZE_def CHUNK_HEIGHT_def algebra_simps)

lemma index_inj:
  assumes "isInBounds x y z" and "isInBounds x' y' z'"
    and "getBlockIndex x y z = getBlockIndex x' y' z'"
  shows "x = x' \<and> y = y' \<and> z = z'"
proof -
  have b: "0 \<le> x" "x < 16" "0 \<le> x'" "x' < 16" "0 \<le> z" "z < 16" "0 \<le> z'" "z' < 16"
    using assms(1,2) by (simp_all add: isInBounds_def CHUNK_SIZE_def)
  have e: "x + 16 * (z + 16 * y) = x' + 16 * (z' + 16 * y')"
    using assms(3) by (simp add: getBlockIndex_def CHUNK_SIZE_def)
  from pair_inj [OF b(1-4) e] have x: "x = x'" and r: "z + 16 * y = z' + 16 * y'"
    by simp_all
  from pair_inj [OF b(5-8) r] x show ?thesis
    by simp
qed

lemma index_nat_lt: "isInBounds x y z \<Longrightarrow> nat (getBlockIndex x y z) < 65536"
  using index_range [of x y z] by linarith

lemma chunk_sized_length: "chunk_sized c \<longleftrightarrow> length (blocks c) = 65536"
  by (simp add: chunk_sized_def CHUNK_SIZE_def CHUNK_HEIGHT_def)

lemma index_lt_length:
  "chunk_sized c \<Longrightarrow> isInBounds x y z \<Longrightarrow> nat (getBlockIndex x y z) < length (blocks c)"
  using index_nat_lt [of x y z] by (simp add: chunk_sized_length)

lemma getBlock_setBlock_same:
  "chunk_sized c \<Longrightarrow> isInBounds x y z \<Longrightarrow> getBlock (setBlock c x y z t) x y z = t"
  by (simp add: getBlock_def setBlock_def index_lt_length)

lemma getBlock_setBlock_other:
  assumes "(x', y', z') \<noteq> (x, y, z)"
  shows "getBlock (setBlock c x y z t) x' y' z' = getBlock c x' y' z'"
proof (cases "isInBounds x y z \<and> isInBounds x' y' z'")
  case True
  then have "getBlockIndex x y z \<noteq> getBlockIndex x' y' z'"
    using index_inj [of x y z x' y' z'] assms by auto
  moreover have "0 \<le> getBlockIndex x y z" "0 \<le> getBlockIndex x' y' z'"
    using True index_range by auto
  ultimately have "nat (getBlockIndex x y z) \<noteq> nat (getBlockIndex x' y' z')"
    by simp
  then show ?thesis
    by (simp add: getBlock_def setBlock_def)
next
  case False
  then show ?thesis
    by (auto simp add: getBlock_def setBlock_def)
qed

lemma getBlock_oob: "\<not> isInBounds x y z \<Longrightarrow> getBlock c x y z = Air"
  by (simp add: getBlock_def)

lemma setBlock_oob: "\<not> isInBounds x y z \<Longrightarrow> setBlock c x y z t = c"
  by (simp add: setBlock_def)

lemma Chunk_new_air: "getBlock (Chunk_new cx cy cz w) x y z = Air"
proof (cases "isInBounds x y z")
  case True
  then have "nat (getBlockIndex x y z) < 65536"
    by (rule index_nat_lt)
  then show ?thesis
    using True by (simp add: getBlock_def Chunk_new_def CHUNK_SIZE_def CHUNK_HEIGHT_def)
next
  case False
  then show ?thesis by (simp add: getBlock_def)
qed

section \<open>Claims on the storage contract\<close>

text \<open>
  C1. Round trip: for every chunk holding the block vector the constructor allocated,
  every local coordinate with \<open>0 \<le> x < 16\<close>, \<open>0 \<le> y < 256\<close>, \<open>0 \<le> z < 16\<close> and every
  block type \<open>T\<close>, \<open>getBlock\<close> after \<open>setBlock x y z T\<close> returns \<open>T\<close>.
\<close>
theorem C1_set_get_roundtrip:
  assumes "chunk_sized c"
    and "0 \<le> x" "x < 16" "0 \<le> y" "y < 256" "0 \<le> z" "z < 16"
  shows "getBlock (setBlock c x y z T) x y z = T"
proof -
  have "isInBounds x y z"
    using assms by (simp add: isInBounds_def CHUNK_SIZE_def CHUNK_HEIGHT_def)
  with assms(1) show ?thesis
    by (simp add: getBlock_def setBlock_def index_lt_length)
qed

theorem C1_set_get_roundtrip_witness:
  "chunk_sized (Chunk_new 0 0 0 0) \<and> (0::int) \<le> 3 \<and> (3::int) < 16 \<and> (0::int) \<le> 70
   \<and> (70::int) < 256 \<and> (0::int) \<le> 15 \<and> (15::int) < 16
   \<and> getBlock (setBlock (Chunk_new 0 0 0 0) 3 70 15 Stone) 3 70 15 = Stone"
  using C1_set_get_roundtrip [of "Chunk_new 0 0 0 0" 3 70 15 Stone] Chunk_new_sized [of 0 0 0 0]
  by simp

text \<open>
  C2. Bounds safety: for every local coordinate with a component outside
  \<open>[0,16) \<times> [0,256) \<times> [0,16)\<close>, every chunk state and every block type, \<open>getBlock\<close>
  returns air (the branch taken reads no slot of the vector, so nothing can throw) and
  \<open>setBlock\<close> returns the chunk as it was: block storage and dirty flag are unchanged.
\<close>
theorem C2_out_of_bounds:
  assumes "\<not> (0 \<le> x \<and> x < 16 \<and> 0 \<le> y \<and> y < 256 \<and> 0 \<le> z \<and> z < 16)"
  shows "getBlock c x y z = Air
       \<and> blocks (setBlock c x y z T) = blocks c
       \<and> meshDirty (setBlock c x y z T) = meshDirty c
       \<and> setBlock c x y z T = c"
proof -
  have "\<not> isInBounds x y z"
    using assms by (simp add: isInBounds_def CHUNK_SIZE_def CHUNK_HEIGHT_def)
  then show ?thesis
    by (simp add: getBlock_def setBlock_def)
qed

theorem C2_out_of_bounds_witness:
  "\<not> ((0::int) \<le> 16 \<and> (16::int) < 16 \<and> (0::int) \<le> 5 \<and> (5::int) < 256
      \<and> (0::int) \<le> -1 \<and> (-1::int) < 16)
   \<and> getBlock (Chunk_new 2 0 (-3) 0) 16 5 (-1) = Air
   \<and> setBlock (Chunk_new 2 0 (-3) 0) 16 5 (-1) Stone = Chunk_new 2 0 (-3) 0
   \<and> meshDirty (setBlock ((Chunk_new 2 0 (-3) 0)\<lparr> meshDirty := False \<rparr>) 16 5 (-1) Stone)
       = False"
  using C2_out_of_bounds [of 16 5 "-1" "Chunk_new 2 0 (-3) 0" Stone]
    C2_out_of_bounds [of 16 5 "-1" "(Chunk_new 2 0 (-3) 0)\<lparr> meshDirty := False \<rparr>" Stone]
  by simp

section \<open>Claims on the linear index\<close>

lemma GetIndex_eq: "GetIndex x y z = y * (16 * 16) + z * 16 + x"
  by (simp add: GetIndex_def CHUNK_SIZE_X_def CHUNK_SIZE_Z_def)

lemma getBlockIndex_GetIndex: "getBlockIndex x y z = GetIndex x y z"
  by (simp add: GetIndex_eq getBlockIndex_def CHUNK_SIZE_def algebra_simps)

lemma cube_isInBounds: "(x, y, z) \<in> coordinateCube \<longleftrightarrow> isInBounds x y z"
  by (auto simp add: coordinateCube_def isInBounds_def CHUNK_SIZE_def CHUNK_HEIGHT_def)

lemma index_preimage:
  assumes "0 \<le> i" and "i < 65536"
  shows "isInBounds (i mod 16) (i div 256) ((i div 16) mod 16)
       \<and> getBlockIndex (i mod 16) (i div 256) ((i div 16) mod 16) = i"
proof -
  have d: "i div 256 = (i div 16) div 16"
    by (simp add: div_mult2_eq [symmetric])
  have "0 \<le> i div 256" "i div 256 < 256"
    using assms by simp_all
  then have "isInBounds (i mod 16) (i div 256) ((i div 16) mod 16)"
    by (simp add: isInBounds_def CHUNK_SIZE_def CHUNK_HEIGHT_def)
  moreover have "i mod 16 + 16 * ((i div 16) mod 16 + 16 * ((i div 16) div 16)) = i"
    by (simp add: mult_div_mod_eq)
  then have "getBlockIndex (i mod 16) (i div 256) ((i div 16) mod 16) = i"
    by (simp add: getBlockIndex_def CHUNK_SIZE_def d)
  ultimately show ?thesis by simp
qed

text \<open>
  C8. Index bijection: \<open>GetIndex\<close> of chunk.h is \<open>y * (16 * 16) + z * 16 + x\<close>,
  \<open>getBlockIndex\<close> of chunk.cpp computes the same function, the function maps the
  coordinate cube into \<open>[0, 65536)\<close>, is injective on the cube, and every index in
  \<open>[0, 65536)\<close> has exactly one preimage in the cube.
\<close>
theorem C8_index_bijection:
  "GetIndex x y z = y * (16 * 16) + z * 16 + x
   \<and> getBlockIndex x y z = GetIndex x y z
   \<and> ((x, y, z) \<in> coordinateCube \<longrightarrow> 0 \<le> GetIndex x y z \<and> GetIndex x y z < 65536)
   \<and> inj_on (\<lambda>(x, y, z). GetIndex x y z) coordinateCube
   \<and> (0 \<le> i \<and> i < 65536 \<longrightarrow>
        (\<exists>!p. p \<in> coordinateCube \<and> (case p of (x, y, z) \<Rightarrow> GetIndex x y z) = i))"
proof (intro conjI impI)
  show "GetIndex x y z = y * (16 * 16) + z * 16 + x"
    by (rule GetIndex_eq)
  show "getBlockIndex x y z = GetIndex x y z"
    by (rule getBlockIndex_GetIndex)
  show "0 \<le> GetIndex x y z" "GetIndex x y z < 65536" if "(x, y, z) \<in> coordinateCube"
    using that index_range [of x y z]
    by (simp_all add: cube_isInBounds getBlockIndex_GetIndex)
  show inj: "inj_on (\<lambda>(x, y, z). GetIndex x y z) coordinateCube"
  proof (rule inj_onI)
    fix p q :: "int \<times> int \<times> int"
    assume pq: "p \<in> coordinateCube" "q \<in> coordinateCube"
      and e: "(case p of (x, y, z) \<Rightarrow> GetIndex x y z) = (case q of (x, y, z) \<Rightarrow> GetIndex x y z)"
    obtain a b c where p: "p = (a, b, c)" by (cases p)
    obtain a' b' c' where q: "q = (a', b', c')" by (cases q)
    have "getBlockIndex a b c = getBlockIndex a' b' c'"
      using e by (simp add: p q getBlockIndex_GetIndex)
    with pq show "p = q"
      using index_inj [of a b c a' b' c'] by (simp add: p q cube_isInBounds)
  qed
  show "\<exists>!p. p \<in> coordinateCube \<and> (case p of (x, y, z) \<Rightarrow> GetIndex x y z) = i"
    if "0 \<le> i \<and> i < 65536"
  proof (rule ex_ex1I)
    have "(i mod 16, i div 256, (i div 16) mod 16) \<in> coordinateCube
        \<and> GetIndex (i mod 16) (i div 256) ((i div 16) mod 16) = i"
      using index_preimage [of i] that
      by (simp add: cube_isInBounds getBlockIndex_GetIndex)
    then show "\<exists>p. p \<in> coordinateCube \<and> (case p of (x, y, z) \<Rightarrow> GetIndex x y z) = i"
      by (intro exI [of _ "(i mod 16, i div 256, (i div 16) mod 16)"]) simp
  next
    fix p q
    assume "p \<in> coordinateCube \<and> (case p of (x, y, z) \<Rightarrow> GetIndex x y z) = i"
      and "q \<in> coordinateCube \<and> (case q of (x, y, z) \<Rightarrow> GetIndex x y z) = i"
    then show "p = q"
      using inj by (auto dest: inj_onD)
  qed
qed

theorem C8_index_bijection_witness:
  "GetIndex 3 70 15 = 18163 \<and> getBlockIndex 3 70 15 = 18163
   \<and> (3, 70, 15) \<in> coordinateCube
   \<and> (0::int) \<le> 18163 \<and> (18163::int) < 65536
   \<and> (\<exists>!p. p \<in> coordinateCube \<and> (case p of (x, y, z) \<Rightarrow> GetIndex x y z) = 18163)"
  using C8_index_bijection [of 3 70 15 18163]
  by (simp add: coordinateCube_def)

section \<open>Claims on the terrain height\<close>

text \<open>
  C7. The terrain height is deterministic and bounded: \<open>generateHeight\<close> is a function
  of its two coordinates alone (it reads no chunk member), so equal inputs give equal
  outputs, and whatever integer the truncated sum of sinusoids is, the returned value
  lies in \<open>[1, CHUNK_HEIGHT - 1] = [1, 255]\<close>.
\<close>
theorem C7_height_deterministic_bounded:
  "(x = x' \<and> z = z' \<longrightarrow> generateHeight sineSum x z = generateHeight sineSum x' z')
   \<and> 1 \<le> generateHeight sineSum x z
   \<and> generateHeight sineSum x z \<le> CHUNK_HEIGHT - 1
   \<and> CHUNK_HEIGHT - 1 = 255"
  by (simp add: generateHeight_def clamp_def CHUNK_HEIGHT_def)

theorem C7_height_deterministic_bounded_witness:
  "((7::int) = 7 \<and> (-2::int) = -2)
   \<and> generateHeight (\<lambda>x z. 1000 * x + z) (7::int) (-2) = 255
   \<and> generateHeight (\<lambda>x z. x * z) (7::int) (-2) = 1
   \<and> generateHeight (\<lambda>x z. 40 + x + z) (7::int) (-2) = 45"
  using C7_height_deterministic_bounded [of 7 7 "-2" "-2" "\<lambda>x z. 1000 * x + z"]
  by (simp add: generateHeight_def clamp_def CHUNK_HEIGHT_def)

section \<open>Terrain generation: what the loops write\<close>

text \<open>
  Each of the three loops of \<^verbatim>\<open>generate\<close> is a fold whose steps write disjoint regions of the
  chunk with values that depend on the chunk coordinates alone. \<open>fold_region\<close> states this
  once; it is used for the levels of a column, the columns of a slice and the slices of the
  chunk.
\<close>

lemma blockAt_setBlock:
  assumes "chunk_sized c"
  shows "blockAt (setBlock c x y z t) p
       = (if p = (x, y, z) \<and> p \<in> coordinateCube then t else blockAt c p)"
proof (cases "p = (x, y, z)")
  case True
  then show ?thesis
    using assms getBlock_setBlock_same [of c x y z t]
    by (simp add: blockAt_def cube_isInBounds setBlock_oob)
next
  case False
  obtain x' y' z' where p: "p = (x', y', z')" by (cases p)
  with False have "(x', y', z') \<noteq> (x, y, z)" by simp
  from getBlock_setBlock_other [OF this, of c t] False show ?thesis
    by (auto simp add: blockAt_def p)
qed

lemma setBlock_chunkXZ:
  "chunkX (setBlock c x y z t) = chunkX c \<and> chunkZ (setBlock c x y z t) = chunkZ c"
  by (simp add: setBlock_def)

lemma fold_region:
  fixes step :: "'a \<Rightarrow> Chunk \<Rightarrow> Chunk"
  assumes step: "\<And>a c. chunk_sized c \<Longrightarrow>
      chunk_sized (step a c) \<and> chunkX (step a c) = chunkX c \<and> chunkZ (step a c) = chunkZ c
      \<and> (\<forall>p. blockAt (step a c) p
              = (if own a p \<and> p \<in> coordinateCube then val (chunkX c) (chunkZ c) p
                 else blockAt c p))"
    and "chunk_sized c"
  shows "chunk_sized (fold step as c) \<and> chunkX (fold step as c) = chunkX c
       \<and> chunkZ (fold step as c) = chunkZ c
       \<and> (\<forall>p. blockAt (fold step as c) p
              = (if (\<exists>a \<in> set as. own a p) \<and> p \<in> coordinateCube
                 then val (chunkX c) (chunkZ c) p else blockAt c p))"
  using assms(2)
proof (induction as arbitrary: c)
  case Nil
  then show ?case by simp
next
  case (Cons a as)
  note s = step [OF Cons.prems, of a]
  from s have sz: "chunk_sized (step a c)" by simp
  note ih = Cons.IH [OF sz]
  show ?case
    using s ih by auto
qed

lemma generateColumn_region:
  assumes "chunk_sized c"
  shows "chunk_sized (generateColumn toFloat sineSum x z c)
       \<and> chunkX (generateColumn toFloat sineSum x z c) = chunkX c
       \<and> chunkZ (generateColumn toFloat sineSum x z c) = chunkZ c
       \<and> (\<forall>p. blockAt (generateColumn toFloat sineSum x z c) p
              = (if (fst p = x \<and> snd (snd p) = z) \<and> p \<in> coordinateCube
                 then terrainLayer
                        (columnHeight toFloat sineSum (chunkX c) (chunkZ c) (fst p) (snd (snd p)))
                        (fst (snd p))
                 else blockAt c p))"
proof -
  define h where "h = columnHeight toFloat sineSum (chunkX c) (chunkZ c) x z"
  define step where "step = (\<lambda>y c. setBlock c x y z (terrainLayer h y))"
  define own where "own = (\<lambda>(y :: int) p. p = (x, y, z))"
  define val where "val = (\<lambda>(cx :: int) (cz :: int) (p :: int \<times> int \<times> int).
      terrainLayer h (fst (snd p)))"
  have st: "chunk_sized (step a d) \<and> chunkX (step a d) = chunkX d \<and> chunkZ (step a d) = chunkZ d
      \<and> (\<forall>p. blockAt (step a d) p
              = (if own a p \<and> p \<in> coordinateCube then val (chunkX d) (chunkZ d) p
                 else blockAt d p))" if "chunk_sized d" for a d
    using that
    by (auto simp add: step_def own_def val_def setBlock_sized setBlock_chunkXZ blockAt_setBlock)
  have g: "generateColumn toFloat sineSum x z c = fold step [0..CHUNK_HEIGHT - 1] c"
    by (simp add: generateColumn_def step_def h_def)
  have o: "((\<exists>a \<in> set [0..CHUNK_HEIGHT - 1]. own a p) \<and> p \<in> coordinateCube)
         \<longleftrightarrow> ((fst p = x \<and> snd (snd p) = z) \<and> p \<in> coordinateCube)" for p
    by (cases p) (auto simp add: own_def CHUNK_HEIGHT_def coordinateCube_def)
  have v: "val (chunkX c) (chunkZ c) p
             = terrainLayer (columnHeight toFloat sineSum (chunkX c) (chunkZ c) (fst p) (snd (snd p)))
                          (fst (snd p))" if "fst p = x \<and> snd (snd p) = z" for p
    using that by (simp add: val_def h_def)
  from fold_region [of step own val c "[0..CHUNK_HEIGHT - 1]", OF st assms]
  show ?thesis
    unfolding g o using v by auto
qed

lemma generateSlice_region:
  assumes "chunk_sized c"
  shows "chunk_sized (generateSlice toFloat sineSum x c)
       \<and> chunkX (generateSlice toFloat sineSum x c) = chunkX c
       \<and> chunkZ (generateSlice toFloat sineSum x c) = chunkZ c
       \<and> (\<forall>p. blockAt (generateSlice toFloat sineSum x c) p
              = (if fst p = x \<and> p \<in> coordinateCube
                 then terrainLayer
                        (columnHeight toFloat sineSum (chunkX c) (chunkZ c) (fst p) (snd (snd p)))
                        (fst (snd p))
                 else blockAt c p))"
proof -
  define own where "own = (\<lambda>(z :: int) (p :: int \<times> int \<times> int). fst p = x \<and> snd (snd p) = z)"
  define val where "val = (\<lambda>cx cz (p :: int \<times> int \<times> int).
      terrainLayer (columnHeight toFloat sineSum cx cz (fst p) (snd (snd p))) (fst (snd p)))"
  have o: "((\<exists>a \<in> set [0..CHUNK_SIZE - 1]. own a p) \<and> p \<in> coordinateCube)
         \<longleftrightarrow> (fst p = x \<and> p \<in> coordinateCube)" for p
    by (cases p) (auto simp add: own_def CHUNK_SIZE_def coordinateCube_def)
  have st: "chunk_sized (generateColumn toFloat sineSum x a d)
      \<and> chunkX (generateColumn toFloat sineSum x a d) = chunkX d
      \<and> chunkZ (generateColumn toFloat sineSum x a d) = chunkZ d
      \<and> (\<forall>p. blockAt (generateColumn toFloat sineSum x a d) p
              = (if own a p \<and> p \<in> coordinateCube then val (chunkX d) (chunkZ d) p
                 else blockAt d p))" if "chunk_sized d" for a d
    unfolding own_def val_def by (rule generateColumn_region [OF that])
  have g: "generateSlice toFloat sineSum x c
             = fold (generateColumn toFloat sineSum x) [0..CHUNK_SIZE - 1] c"
    by (simp add: generateSlice_def)
  from fold_region [of "generateColumn toFloat sineSum x" own val c "[0..CHUNK_SIZE - 1]",
      OF st assms]
  show ?thesis
    unfolding g o val_def .
qed

lemma generate_slices:
  "generate toFloat sineSum c
     = (fold (generateSlice toFloat sineSum) [0..CHUNK_SIZE - 1] c) \<lparr> meshDirty := True \<rparr>"
proof -
  have s: "(\<lambda>x. fold (\<lambda>z c.
        let worldX = toFloat (chunkX c * CHUNK_SIZE + x);
            worldZ = toFloat (chunkZ c * CHUNK_SIZE + z);
            height = generateHeight sineSum worldX worldZ
        in fold (\<lambda>y c.
             let blockType =
                   (if y < height - 3 then Stone
                    else if y < height then Dirt
                    else if y = height then Grass
                    else Air)
             in setBlock c x y z blockType)
           [0..CHUNK_HEIGHT - 1] c)
        [0..CHUNK_SIZE - 1]) = generateSlice toFloat sineSum"
    by (intro ext)
      (simp add: generateSlice_def generateColumn_def columnHeight_def terrainLayer_def Let_def)
  show ?thesis
    unfolding generate_def s ..
qed

lemma blockAt_meshDirty: "blockAt (c\<lparr> meshDirty := b \<rparr>) p = blockAt c p"
  by (cases p) (simp add: blockAt_def getBlock_def)

lemma generate_region:
  assumes "chunk_sized c"
  shows "blockAt (generate toFloat sineSum c) p
           = (if p \<in> coordinateCube
              then terrainLayer
                     (columnHeight toFloat sineSum (chunkX c) (chunkZ c) (fst p) (snd (snd p)))
                     (fst (snd p))
              else blockAt c p)"
proof -
  define own where "own = (\<lambda>(x :: int) (p :: int \<times> int \<times> int). fst p = x)"
  define val where "val = (\<lambda>cx cz (p :: int \<times> int \<times> int).
      terrainLayer (columnHeight toFloat sineSum cx cz (fst p) (snd (snd p))) (fst (snd p)))"
  have o: "((\<exists>a \<in> set [0..CHUNK_SIZE - 1]. own a p) \<and> p \<in> coordinateCube)
         \<longleftrightarrow> p \<in> coordinateCube" for p
    by (cases p) (auto simp add: own_def CHUNK_SIZE_def coordinateCube_def)
  have st: "chunk_sized (generateSlice toFloat sineSum a d)
      \<and> chunkX (generateSlice toFloat sineSum a d) = chunkX d
      \<and> chunkZ (generateSlice toFloat sineSum a d) = chunkZ d
      \<and> (\<forall>p. blockAt (generateSlice toFloat sineSum a d) p
              = (if own a p \<and> p \<in> coordinateCube then val (chunkX d) (chunkZ d) p
                 else blockAt d p))" if "chunk_sized d" for a d
    unfolding own_def val_def by (rule generateSlice_region [OF that])
  from fold_region [of "generateSlice toFloat sineSum" own val c "[0..CHUNK_SIZE - 1]",
      OF st assms]
  have "\<forall>p. blockAt (fold (generateSlice toFloat sineSum) [0..CHUNK_SIZE - 1] c) p
              = (if p \<in> coordinateCube then val (chunkX c) (chunkZ c) p else blockAt c p)"
    unfolding o by simp
  then show ?thesis
    unfolding generate_slices blockAt_meshDirty val_def by blast
qed

section \<open>Claims on terrain generation\<close>

lemma Chunk_new_coords:
  "chunkX (Chunk_new cx cy cz w) = cx \<and> chunkY (Chunk_new cx cy cz w) = cy
   \<and> chunkZ (Chunk_new cx cy cz w) = cz"
  by (simp add: Chunk_new_def)

text \<open>
  C3. Terrain layering: after \<open>generate\<close>, in the column \<open>(x, z)\<close> of a chunk, with
  \<open>h\<close> the value of \<open>generateHeight\<close> at the column's world coordinates
  \<open>(chunkX * 16 + x, chunkZ * 16 + z)\<close>, the cell at level \<open>y\<close> holds stone when
  \<open>y < h - 3\<close>, dirt when \<open>h - 3 \<le> y < h\<close>, grass when \<open>y = h\<close> and air when \<open>y > h\<close>,
  for every level \<open>0 \<le> y < 256\<close> and every \<open>h\<close> (which lies in \<open>[1, 255]\<close>), so also
  when \<open>h - 3 \<le> 0\<close> and when \<open>h = 255\<close>.
\<close>
theorem C3_terrain_layering:
  assumes "chunk_sized c"
    and "0 \<le> x" "x < 16" "0 \<le> y" "y < 256" "0 \<le> z" "z < 16"
    and "h = generateHeight sineSum (toFloat (chunkX c * 16 + x)) (toFloat (chunkZ c * 16 + z))"
  shows "(y < h - 3 \<longrightarrow> getBlock (generate toFloat sineSum c) x y z = Stone)
       \<and> (h - 3 \<le> y \<and> y < h \<longrightarrow> getBlock (generate toFloat sineSum c) x y z = Dirt)
       \<and> (y = h \<longrightarrow> getBlock (generate toFloat sineSum c) x y z = Grass)
       \<and> (y > h \<longrightarrow> getBlock (generate toFloat sineSum c) x y z = Air)
       \<and> 1 \<le> h \<and> h \<le> 255"
proof -
  have cube: "(x, y, z) \<in> coordinateCube"
    using assms(2-7) by (simp add: coordinateCube_def)
  have h: "h = columnHeight toFloat sineSum (chunkX c) (chunkZ c) x z"
    using assms(8) by (simp add: columnHeight_def CHUNK_SIZE_def)
  have "blockAt (generate toFloat sineSum c) (x, y, z) = terrainLayer h y"
    using generate_region [OF assms(1), of toFloat sineSum "(x, y, z)"] cube h by simp
  then have g: "getBlock (generate toFloat sineSum c) x y z = terrainLayer h y"
    by (simp add: blockAt_def)
  have b: "1 \<le> h \<and> h \<le> 255"
    unfolding assms(8) by (simp add: generateHeight_def clamp_def CHUNK_HEIGHT_def)
  show ?thesis
    unfolding g using b by (simp add: terrainLayer_def)
qed

theorem C3_terrain_layering_witness:
  "chunk_sized (Chunk_new 0 0 0 0)
   \<and> generateHeight (\<lambda>x z. x) (2::int) 5 = 2
   \<and> getBlock (generate (\<lambda>i. i) (\<lambda>x z. x) (Chunk_new 0 0 0 0)) 2 0 5 = Dirt
   \<and> getBlock (generate (\<lambda>i. i) (\<lambda>x z. x) (Chunk_new 0 0 0 0)) 2 2 5 = Grass
   \<and> getBlock (generate (\<lambda>i. i) (\<lambda>x z. x) (Chunk_new 0 0 0 0)) 2 3 5 = Air
   \<and> generateHeight (\<lambda>x z. x + 40) (20::int) 0 = 60
   \<and> getBlock (generate (\<lambda>i. i) (\<lambda>x z. x + 40) (Chunk_new 1 0 0 0)) 4 56 0 = Stone
   \<and> getBlock (generate (\<lambda>i. i) (\<lambda>x z. x + 40) (Chunk_new 1 0 0 0)) 4 57 0 = Dirt
   \<and> generateHeight (\<lambda>x z. 300) (0::int) 15 = 255
   \<and> getBlock (generate (\<lambda>i. i) (\<lambda>x z. 300) (Chunk_new 0 0 0 0)) 0 255 15 = Grass
   \<and> getBlock (generate (\<lambda>i. i) (\<lambda>x z. 300) (Chunk_new 0 0 0 0)) 0 254 15 = Dirt
   \<and> getBlock (generate (\<lambda>i. i) (\<lambda>x z. 300) (Chunk_new 0 0 0 0)) 0 251 15 = Stone"
proof -
  note s = Chunk_new_sized Chunk_new_coords generateHeight_def clamp_def CHUNK_HEIGHT_def
  have a: "getBlock (generate (\<lambda>i. i) (\<lambda>x z. x) (Chunk_new 0 0 0 0)) 2 0 5 = Dirt"
    using C3_terrain_layering [of "Chunk_new 0 0 0 0" 2 0 5
        "generateHeight (\<lambda>x z. x) 2 5" "\<lambda>x z. x" "\<lambda>i. i"]
    by (simp add: s)
  have b: "getBlock (generate (\<lambda>i. i) (\<lambda>x z. x) (Chunk_new 0 0 0 0)) 2 2 5 = Grass"
    using C3_terrain_layering [of "Chunk_new 0 0 0 0" 2 2 5
        "generateHeight (\<lambda>x z. x) 2 5" "\<lambda>x z. x" "\<lambda>i. i"]
    by (simp add: s)
  have c: "getBlock (generate (\<lambda>i. i) (\<lambda>x z. x) (Chunk_new 0 0 0 0)) 2 3 5 = Air"
    using C3_terrain_layering [of "Chunk_new 0 0 0 0" 2 3 5
        "generateHeight (\<lambda>x z. x) 2 5" "\<lambda>x z. x" "\<lambda>i. i"]
    by (simp add: s)
  have d: "getBlock (generate (\<lambda>i. i) (\<lambda>x z. x + 40) (Chunk_new 1 0 0 0)) 4 56 0 = Stone"
    using C3_terrain_layering [of "Chunk_new 1 0 0 0" 4 56 0
        "generateHeight (\<lambda>x z. x + 40) 20 0" "\<lambda>x z. x + 40" "\<lambda>i. i"]
    by (simp add: s)
  have e: "getBlock (generate (\<lambda>i. i) (\<lambda>x z. x + 40) (Chunk_new 1 0 0 0)) 4 57 0 = Dirt"
    using C3_terrain_layering [of "Chunk_new 1 0 0 0" 4 57 0
        "generateHeight (\<lambda>x z. x + 40) 20 0" "\<lambda>x z. x + 40" "\<lambda>i. i"]
    by (simp add: s)
  have f: "getBlock (generate (\<lambda>i. i) (\<lambda>x z. 300) (Chunk_new 0 0 0 0)) 0 255 15 = Grass"
    using C3_terrain_layering [of "Chunk_new 0 0 0 0" 0 255 15
        "generateHeight (\<lambda>x z. 300) 0 15" "\<lambda>x z. 300" "\<lambda>i. i"]
    by (simp add: s)
  have g: "getBlock (generate (\<lambda>i. i) (\<lambda>x z. 300) (Chunk_new 0 0 0 0)) 0 254 15 = Dirt"
    using C3_terrain_layering [of "Chunk_new 0 0 0 0" 0 254 15
        "generateHeight (\<lambda>x z. 300) 0 15" "\<lambda>x z. 300" "\<lambda>i. i"]
    by (simp add: s)
  have h: "getBlock (generate (\<lambda>i. i) (\<lambda>x z. 300) (Chunk_new 0 0 0 0)) 0 251 15 = Stone"
    using C3_terrain_layering [of "Chunk_new 0 0 0 0" 0 251 15
        "generateHeight (\<lambda>x z. 300) 0 15" "\<lambda>x z. 300" "\<lambda>i. i"]
    by (simp add: s)
  have k: "generateHeight (\<lambda>x z. x) (2::int) 5 = 2"
    "generateHeight (\<lambda>x z. x + 40) (20::int) 0 = 60"
    "generateHeight (\<lambda>x z. 300) (0::int) 15 = 255"
    by (simp_all add: generateHeight_def clamp_def CHUNK_HEIGHT_def)
  show ?thesis
    by (intro conjI a b c d e f g h k Chunk_new_sized)
qed

section \<open>buildMesh: flags, names and buffers\<close>

lemmas gl_defs = glGenVertexArrays_def glGenBuffers_def glBindVertexArray_def glBindBuffer_def
  glBufferData_def glVertexAttribPointer_def glEnableVertexAttribArray_def

lemma buildMesh_clean:
  "\<not> meshDirty c \<Longrightarrow> meshBuilt c \<Longrightarrow> buildMesh (c, gl) = (c, gl)"
  by (simp add: buildMesh_def)

lemma buildMesh_flags:
  "\<not> meshDirty (fst (buildMesh s)) \<and> meshBuilt (fst (buildMesh s))"
  by (cases s) (simp add: buildMesh_def Let_def split: prod.split)

lemma buildMesh_idem: "buildMesh (buildMesh s) = buildMesh s"
  using buildMesh_flags [of s] buildMesh_clean [of "fst (buildMesh s)" "snd (buildMesh s)"]
  by simp

lemma buildMesh_blocks: "blocks (fst (buildMesh s)) = blocks (fst s)"
  by (cases s) (simp add: buildMesh_def Let_def split: prod.split)

lemma buildMesh_rebuild_names:
  assumes "meshBuilt c"
  shows "vertexArrayNames (snd (buildMesh (c, gl))) = vertexArrayNames gl
       \<and> bufferNames (snd (buildMesh (c, gl))) = bufferNames gl
       \<and> vao (fst (buildMesh (c, gl))) = vao c
       \<and> vbo (fst (buildMesh (c, gl))) = vbo c
       \<and> ebo (fst (buildMesh (c, gl))) = ebo c"
  using assms by (simp add: buildMesh_def Let_def gl_defs split: prod.split)

lemma buildMesh_first_names:
  assumes "\<not> meshBuilt c"
  shows "vertexArrayNames (snd (buildMesh (c, gl))) = Suc (vertexArrayNames gl)
       \<and> bufferNames (snd (buildMesh (c, gl))) = Suc (Suc (bufferNames gl))
       \<and> vao (fst (buildMesh (c, gl))) = Suc (vertexArrayNames gl)
       \<and> vbo (fst (buildMesh (c, gl))) = Suc (bufferNames gl)
       \<and> ebo (fst (buildMesh (c, gl))) = Suc (Suc (bufferNames gl))"
  using assms by (simp add: buildMesh_def Let_def gl_defs split: prod.split)

lemma buildMesh_counts:
  assumes "meshDirty c \<or> \<not> meshBuilt c"
  shows "vertexCount (fst (buildMesh (c, gl))) = length (fst (meshScan c)) div 8
       \<and> indexCount (fst (buildMesh (c, gl))) = length (snd (meshScan c))"
proof (cases "meshBuilt c")
  case True
  with assms have "meshDirty c" by simp
  with True show ?thesis
    by (simp add: buildMesh_def Let_def gl_defs split: prod.split)
next
  case False
  then show ?thesis
    by (simp add: buildMesh_def Let_def gl_defs split: prod.split)
qed

lemma buildMesh_upload_rebuild:
  assumes "meshDirty c" and "meshBuilt c"
    and "vbo c \<noteq> 0" and "ebo c \<noteq> 0" and "vbo c \<noteq> ebo c"
  shows "bufferStore (snd (buildMesh (c, gl))) (vbo c) = Some (FloatData (fst (meshScan c)))
       \<and> bufferStore (snd (buildMesh (c, gl))) (ebo c) = Some (UIntData (snd (meshScan c)))"
  using assms by (simp add: buildMesh_def Let_def gl_defs split: prod.split)

lemma buildMesh_upload_first:
  assumes "\<not> meshBuilt c"
  shows "bufferStore (snd (buildMesh (c, gl))) (Suc (bufferNames gl))
           = Some (FloatData (fst (meshScan c)))
       \<and> bufferStore (snd (buildMesh (c, gl))) (Suc (Suc (bufferNames gl)))
           = Some (UIntData (snd (meshScan c)))"
  using assms by (simp add: buildMesh_def Let_def gl_defs split: prod.split)

section \<open>The mesh scan\<close>

lemma fold_skip:
  assumes "\<And>a m. a \<in> set xs \<Longrightarrow> f a m = m"
  shows "fold f xs m = m"
  using assms by (induction xs arbitrary: m) simp_all

lemma meshBlock_air: "getBlock c x y z = Air \<Longrightarrow> meshBlock c x y z m = m"
  by (simp add: meshBlock_def)

lemma meshScan_all_air:
  assumes "\<And>x y z. getBlock c x y z = Air"
  shows "meshScan c = ([], [])"
  unfolding meshScan_def
  by (intro fold_skip) (simp add: assms meshBlock_air)

section \<open>Faces\<close>

lemma face_cases:
  fixes face :: int
  assumes "face \<in> {0..5}"
  shows "face = 0 \<or> face = 1 \<or> face = 2 \<or> face = 3 \<or> face = 4 \<or> face = 5"
  using assms by auto

lemma addFace_length:
  assumes "face \<in> {0..5}"
  shows "length (fst (addFace x y z face blockType m)) = length (fst m) + 32
       \<and> length (snd (addFace x y z face blockType m)) = length (snd m) + 6"
  using face_cases [OF assms]
  by (cases m) (auto simp add: addFace_def Let_def)

lemma addFaceIfExposed_neighbor:
  "addFaceIfExposed c x y z blockType face m
     = (if neighborBlock c x y z face = Air then addFace x y z face blockType m else m)"
  by (simp add: addFaceIfExposed_def neighborBlock_def faceNeighbor_def blockAt_def)

lemma addFaceIfExposed_length:
  assumes "face \<in> {0..5}"
  shows "length (fst (addFaceIfExposed c x y z blockType face m))
           = length (fst m) + 32 * (if neighborBlock c x y z face = Air then 1 else 0)
       \<and> length (snd (addFaceIfExposed c x y z blockType face m))
           = length (snd m) + 6 * (if neighborBlock c x y z face = Air then 1 else 0)"
  by (simp add: addFaceIfExposed_neighbor addFace_length [OF assms])

lemma meshBlock_length:
  assumes "getBlock c x y z \<noteq> Air"
  shows "length (fst (meshBlock c x y z m)) = length (fst m) + 32 * exposedCount c x y z
       \<and> length (snd (meshBlock c x y z m)) = length (snd m) + 6 * exposedCount c x y z"
proof -
  have f: "(0::int) \<in> {0..5}" "(1::int) \<in> {0..5}" "(2::int) \<in> {0..5}" "(3::int) \<in> {0..5}"
    "(4::int) \<in> {0..5}" "(5::int) \<in> {0..5}"
    by simp_all
  note l = f [THEN addFaceIfExposed_length]
  show ?thesis
    unfolding meshBlock_def Let_def exposedCount_def
    using assms by (simp only: l if_False list.map sum_list.Cons sum_list.Nil) (simp add: algebra_simps)
qed

lemma exposedCount_all:
  assumes "\<And>face. face \<in> {0..5} \<Longrightarrow> neighborBlock c x y z face = Air"
  shows "exposedCount c x y z = 6"
  by (simp add: exposedCount_def assms)

lemma exposedCount_one_solid:
  assumes "f0 \<in> {0..5}" and "neighborBlock c x y z f0 \<noteq> Air"
    and "\<And>face. face \<in> {0..5} \<Longrightarrow> face \<noteq> f0 \<Longrightarrow> neighborBlock c x y z face = Air"
  shows "exposedCount c x y z = 5"
  using face_cases [OF assms(1)] assms(2)
    assms(3) [of 0] assms(3) [of 1] assms(3) [of 2] assms(3) [of 3] assms(3) [of 4] assms(3) [of 5]
  by (auto simp add: exposedCount_def)

section \<open>Blocks and their neighbours\<close>

lemma getBlock_setBlock:
  assumes "chunk_sized c"
  shows "getBlock (setBlock c x y z t) x' y' z'
           = (if (x', y', z') = (x, y, z) \<and> isInBounds x y z then t else getBlock c x' y' z')"
  using blockAt_setBlock [OF assms, of x y z t "(x', y', z')"]
  by (auto simp add: blockAt_def cube_isInBounds)

lemma setBlock_flags:
  "meshDirty (setBlock c x y z t) = (isInBounds x y z \<or> meshDirty c)
   \<and> meshBuilt (setBlock c x y z t) = meshBuilt c"
  by (simp add: setBlock_def)

lemma neighbor_differs:
  assumes "face \<in> {0..5}"
  shows "faceNeighbor x y z face \<noteq> (x, y, z)"
  using face_cases [OF assms] by (auto simp add: faceNeighbor_def)

lemma single_block_neighbors:
  assumes "\<And>x' y' z'. (x', y', z') \<noteq> (x, y, z) \<Longrightarrow> getBlock c x' y' z' = Air"
    and "face \<in> {0..5}"
  shows "neighborBlock c x y z face = Air"
proof -
  obtain a b d where n: "faceNeighbor x y z face = (a, b, d)"
    by (cases "faceNeighbor x y z face")
  then have "(a, b, d) \<noteq> (x, y, z)"
    using neighbor_differs [OF assms(2), of x y z] by simp
  then have "getBlock c a b d = Air" by (rule assms(1))
  then show ?thesis
    by (simp add: neighborBlock_def blockAt_def n)
qed

section \<open>The faces of a whole chunk\<close>

lemma fold_measure:
  fixes \<mu> :: "'m \<Rightarrow> nat"
  assumes "\<And>a m. \<mu> (f a m) = \<mu> m + g a"
  shows "\<mu> (fold f xs m) = \<mu> m + sum_list (map g xs)"
  by (induction xs arbitrary: m) (simp_all add: assms)

lemma sum_list_upto: "sum_list (map g [i..j]) = sum g {i..j}"
  by (simp add: sum_list_distinct_conv_sum_set)

lemma meshBlock_faces:
  "length (fst (meshBlock c x y z m)) = length (fst m) + 32 * blockFaces c x y z
   \<and> length (snd (meshBlock c x y z m)) = length (snd m) + 6 * blockFaces c x y z"
proof (cases "getBlock c x y z = Air")
  case True
  then show ?thesis by (simp add: meshBlock_air blockFaces_def)
next
  case False
  then show ?thesis
    using meshBlock_length [OF False, of m] by (simp add: blockFaces_def)
qed

lemma cube_product: "coordinateCube = {0..15} \<times> {0..255} \<times> {0..15}"
  by (auto simp add: coordinateCube_def)

lemma cube_sum:
  fixes f :: "int \<Rightarrow> int \<Rightarrow> int \<Rightarrow> nat"
  shows "(\<Sum>x \<in> {0..15}. \<Sum>y \<in> {0..255}. \<Sum>z \<in> {0..15}. f x y z)
       = (\<Sum>(x, y, z) \<in> coordinateCube. f x y z)"
  unfolding cube_product by (simp add: sum.cartesian_product)

lemma scan_measure:
  fixes \<mu> :: "rat list \<times> nat list \<Rightarrow> nat"
  assumes "\<And>x y z m. \<mu> (meshBlock c x y z m) = \<mu> m + k * blockFaces c x y z"
  shows "\<mu> (fold (\<lambda>x. fold (\<lambda>y. fold (\<lambda>z. meshBlock c x y z) [0..CHUNK_SIZE - 1])
                 [0..CHUNK_HEIGHT - 1]) [0..CHUNK_SIZE - 1] m) = \<mu> m + k * totalFaces c"
proof -
  have row: "\<mu> (fold (\<lambda>z. meshBlock c x y z) [0..CHUNK_SIZE - 1] m)
      = \<mu> m + (\<Sum>z \<in> {0..15}. k * blockFaces c x y z)" for x y m
  proof -
    have "\<mu> (fold (\<lambda>z. meshBlock c x y z) [0..CHUNK_SIZE - 1] m)
        = \<mu> m + sum_list (map (\<lambda>z. k * blockFaces c x y z) [0..CHUNK_SIZE - 1])"
      by (rule fold_measure) (rule assms)
    then show ?thesis
      by (simp add: sum_list_upto CHUNK_SIZE_def)
  qed
  have col: "\<mu> (fold (\<lambda>y. fold (\<lambda>z. meshBlock c x y z) [0..CHUNK_SIZE - 1])
                  [0..CHUNK_HEIGHT - 1] m)
      = \<mu> m + (\<Sum>y \<in> {0..255}. \<Sum>z \<in> {0..15}. k * blockFaces c x y z)" for x m
  proof -
    have "\<mu> (fold (\<lambda>y. fold (\<lambda>z. meshBlock c x y z) [0..CHUNK_SIZE - 1])
                  [0..CHUNK_HEIGHT - 1] m)
        = \<mu> m + sum_list (map (\<lambda>y. \<Sum>z \<in> {0..15}. k * blockFaces c x y z)
                              [0..CHUNK_HEIGHT - 1])"
      by (rule fold_measure) (rule row)
    then show ?thesis
      by (simp add: sum_list_upto CHUNK_HEIGHT_def)
  qed
  have "\<mu> (fold (\<lambda>x. fold (\<lambda>y. fold (\<lambda>z. meshBlock c x y z) [0..CHUNK_SIZE - 1])
                 [0..CHUNK_HEIGHT - 1]) [0..CHUNK_SIZE - 1] m)
      = \<mu> m + sum_list (map (\<lambda>x. \<Sum>y \<in> {0..255}. \<Sum>z \<in> {0..15}. k * blockFaces c x y z)
                            [0..CHUNK_SIZE - 1])"
    by (rule fold_measure) (rule col)
  also have "sum_list (map (\<lambda>x. \<Sum>y \<in> {0..255}. \<Sum>z \<in> {0..15}. k * blockFaces c x y z)
                            [0..CHUNK_SIZE - 1])
      = (\<Sum>x \<in> {0..15}. \<Sum>y \<in> {0..255}. \<Sum>z \<in> {0..15}. k * blockFaces c x y z)"
    by (simp add: sum_list_upto CHUNK_SIZE_def)
  also have "\<dots> = k * (\<Sum>x \<in> {0..15}. \<Sum>y \<in> {0..255}. \<Sum>z \<in> {0..15}. blockFaces c x y z)"
    by (simp add: sum_distrib_left)
  finally show ?thesis
    by (simp add: totalFaces_def cube_sum)
qed

lemma meshScan_faces:
  "length (fst (meshScan c)) = 32 * totalFaces c \<and> length (snd (meshScan c)) = 6 * totalFaces c"
  unfolding meshScan_def
  using scan_measure [of "\<lambda>m. length (fst m)" c 32 "([], [])"]
    scan_measure [of "\<lambda>m. length (snd m)" c 6 "([], [])"]
  by (simp add: meshBlock_faces)

lemma finite_cube: "finite coordinateCube"
  by (simp add: cube_product)

lemma faceNeighbor_inj:
  assumes "f \<in> {0..5}" and "f' \<in> {0..5}"
    and "faceNeighbor x y z f = faceNeighbor x y z f'"
  shows "f = f'"
  using face_cases [OF assms(1)] face_cases [OF assms(2)] assms(3)
  by (auto simp add: faceNeighbor_def)

lemma faceNeighbor_opposite:
  assumes "f \<in> {0..5}" and "faceNeighbor x y z f = (a, b, d)"
  shows "\<exists>f' \<in> {0..5}. faceNeighbor a b d f' = (x, y, z)"
proof -
  define f' where "f' = (if f = 0 then 1 else if f = 1 then 0 else if f = 2 then 3
      else if f = 3 then 2 else if f = 4 then 5 else (4 :: int))"
  have "f' \<in> {0..5}" by (simp add: f'_def)
  moreover have "faceNeighbor a b d f' = (x, y, z)"
    using face_cases [OF assms(1)] assms(2)
    by (auto simp add: faceNeighbor_def f'_def)
  ultimately show ?thesis by blast
qed

lemma totalFaces_single:
  assumes "isInBounds x y z"
    and "\<And>x' y' z'. (x', y', z') \<noteq> (x, y, z) \<Longrightarrow> getBlock c x' y' z' = Air"
  shows "totalFaces c = blockFaces c x y z"
proof -
  have "(\<lambda>(x', y', z'). blockFaces c x' y' z')
      = (\<lambda>p. if p = (x, y, z) then blockFaces c x y z else 0)"
    by (auto simp add: fun_eq_iff blockFaces_def assms(2))
  then have "totalFaces c = (\<Sum>p \<in> coordinateCube. if p = (x, y, z) then blockFaces c x y z else 0)"
    by (simp add: totalFaces_def)
  also have "\<dots> = blockFaces c x y z"
    using assms(1) by (simp add: sum.delta finite_cube cube_isInBounds)
  finally show ?thesis .
qed

lemma totalFaces_pair:
  assumes "isInBounds x y z" and "isInBounds a b d" and "(a, b, d) \<noteq> (x, y, z)"
    and "\<And>x' y' z'. (x', y', z') \<noteq> (x, y, z) \<Longrightarrow> (x', y', z') \<noteq> (a, b, d)
          \<Longrightarrow> getBlock c x' y' z' = Air"
  shows "totalFaces c = blockFaces c x y z + blockFaces c a b d"
proof -
  have "(\<lambda>(x', y', z'). blockFaces c x' y' z')
      = (\<lambda>p. (if p = (x, y, z) then blockFaces c x y z else 0)
             + (if p = (a, b, d) then blockFaces c a b d else 0))"
    using assms(3) by (auto simp add: fun_eq_iff blockFaces_def assms(4))
  then have "totalFaces c = (\<Sum>p \<in> coordinateCube.
      (if p = (x, y, z) then blockFaces c x y z else 0)
      + (if p = (a, b, d) then blockFaces c a b d else 0))"
    by (simp add: totalFaces_def)
  also have "\<dots> = blockFaces c x y z + blockFaces c a b d"
    using assms(1,2) by (simp add: sum.distrib sum.delta finite_cube cube_isInBounds)
  finally show ?thesis .
qed

lemma pair_faces:
  assumes "f0 \<in> {0..5}" and "faceNeighbor x y z f0 = (a, b, d)"
    and "getBlock c x y z \<noteq> Air" and "getBlock c a b d \<noteq> Air"
    and "\<And>x' y' z'. (x', y', z') \<noteq> (x, y, z) \<Longrightarrow> (x', y', z') \<noteq> (a, b, d)
          \<Longrightarrow> getBlock c x' y' z' = Air"
  shows "blockFaces c x y z = 5 \<and> blockFaces c a b d = 5"
proof -
  have ne: "(a, b, d) \<noteq> (x, y, z)"
    using neighbor_differs [OF assms(1), of x y z] assms(2) by simp
  have "exposedCount c x y z = 5"
  proof (rule exposedCount_one_solid [OF assms(1)])
    show "neighborBlock c x y z f0 \<noteq> Air"
      using assms(4) by (simp add: neighborBlock_def blockAt_def assms(2))
  next
    fix face :: int
    assume f: "face \<in> {0..5}" "face \<noteq> f0"
    obtain u v w where n: "faceNeighbor x y z face = (u, v, w)"
      by (cases "faceNeighbor x y z face")
    have "(u, v, w) \<noteq> (x, y, z)"
      using neighbor_differs [OF f(1), of x y z] n by simp
    moreover have "(u, v, w) \<noteq> (a, b, d)"
      using faceNeighbor_inj [OF f(1) assms(1), of x y z] f(2) n assms(2) by auto
    ultimately have "getBlock c u v w = Air" by (rule assms(5))
    then show "neighborBlock c x y z face = Air"
      by (simp add: neighborBlock_def blockAt_def n)
  qed
  moreover have "exposedCount c a b d = 5"
  proof -
    obtain f1 where f1: "f1 \<in> {0..5}" "faceNeighbor a b d f1 = (x, y, z)"
      using faceNeighbor_opposite [OF assms(1,2)] by blast
    show ?thesis
    proof (rule exposedCount_one_solid [OF f1(1)])
      show "neighborBlock c a b d f1 \<noteq> Air"
        using assms(3) by (simp add: neighborBlock_def blockAt_def f1(2))
    next
      fix face :: int
      assume f: "face \<in> {0..5}" "face \<noteq> f1"
      obtain u v w where n: "faceNeighbor a b d face = (u, v, w)"
        by (cases "faceNeighbor a b d face")
      have "(u, v, w) \<noteq> (a, b, d)"
        using neighbor_differs [OF f(1), of a b d] n by simp
      moreover have "(u, v, w) \<noteq> (x, y, z)"
        using faceNeighbor_inj [OF f(1) f1(1), of a b d] f(2) n f1(2) by auto
      ultimately have "getBlock c u v w = Air" by (intro assms(5))
      then show "neighborBlock c a b d face = Air"
        by (simp add: neighborBlock_def blockAt_def n)
    qed
  qed
  ultimately show ?thesis
    using assms(3,4) by (simp add: blockFaces_def)
qed

lemma fold_product_apply:
  "fold G (List.product xs ys) m = fold (\<lambda>x. fold (\<lambda>y. G (x, y)) ys) xs m"
  by (induction xs arbitrary: m) (simp_all add: fold_map comp_def)

lemma fold_product:
  "fold G (List.product xs ys) = fold (\<lambda>x. fold (\<lambda>y. G (x, y)) ys) xs"
  by (rule ext) (rule fold_product_apply)

lemma fold_filter:
  "fold g (filter P xs) m = fold (\<lambda>a m. if P a then g a m else m) xs m"
  by (induction xs arbitrary: m) simp_all

lemma meshBlock_faces_fold:
  "meshBlock c x y z m
     = fold (\<lambda>face m. if faceExposed c ((x, y, z), face) then emitFace c ((x, y, z), face) m else m)
         [0, 1, 2, 3, 4, 5] m"
  by (simp add: meshBlock_def addFaceIfExposed_neighbor faceExposed_def emitFace_def Let_def)

lemma meshScan_emitted: "meshScan c = fold (emitFace c) (emittedFaces c) ([], [])"
proof -
  have "fold (emitFace c) (emittedFaces c) ([], [])
      = fold (\<lambda>p. fold (\<lambda>face m. if faceExposed c (p, face) then emitFace c (p, face) m else m)
                       [0, 1, 2, 3, 4, 5]) scanCells ([], [])"
    by (simp add: emittedFaces_def scanFaces_def fold_filter fold_product)
  also have "\<dots> = fold (\<lambda>p. case p of (x, y, z) \<Rightarrow> meshBlock c x y z) scanCells ([], [])"
    by (rule arg_cong [where f = "\<lambda>F. fold F scanCells ([], [])"])
      (auto simp add: fun_eq_iff meshBlock_faces_fold)
  also have "\<dots> = meshScan c"
    by (simp add: scanCells_def fold_product meshScan_def CHUNK_SIZE_def CHUNK_HEIGHT_def)
  finally show ?thesis by simp
qed

lemma emittedFaces_set:
  "set (emittedFaces c)
     = {((x, y, z), face). (x, y, z) \<in> coordinateCube \<and> face \<in> {0..5}
          \<and> getBlock c x y z \<noteq> Air \<and> neighborBlock c x y z face = Air}"
proof -
  have "set [0, 1, 2, 3, 4, 5 :: int] = {0..5}"
    by auto
  then have "set scanFaces = coordinateCube \<times> {0..5}"
    by (simp add: scanFaces_def scanCells_def cube_product)
  then show ?thesis
    by (auto simp add: emittedFaces_def faceExposed_def)
qed

lemma emittedFaces_distinct: "distinct (emittedFaces c)"
  by (simp add: emittedFaces_def scanFaces_def scanCells_def distinct_product)

lemma emitFace_length:
  assumes "snd pf \<in> {0..5}"
  shows "length (fst (emitFace c pf m)) = length (fst m) + 32
       \<and> length (snd (emitFace c pf m)) = length (snd m) + 6"
proof -
  obtain x y z face where pf: "pf = ((x, y, z), face)"
    by (cases pf) auto
  with assms have "face \<in> {0..5}" by simp
  from addFace_length [OF this, of x y z "getBlock c x y z" m] show ?thesis
    by (simp add: emitFace_def pf)
qed

lemma fold_emitFace_length:
  assumes "\<And>pf. pf \<in> set fs \<Longrightarrow> snd pf \<in> {0..5}"
  shows "length (fst (fold (emitFace c) fs m)) = length (fst m) + 32 * length fs
       \<and> length (snd (fold (emitFace c) fs m)) = length (snd m) + 6 * length fs"
  using assms by (induction fs arbitrary: m) (simp_all add: emitFace_length)

lemma emittedFaces_length: "length (emittedFaces c) = totalFaces c"
proof -
  have "snd pf \<in> {0..5}" if "pf \<in> set (emittedFaces c)" for pf
    using that by (auto simp add: emittedFaces_set)
  from fold_emitFace_length [of "emittedFaces c" c "([], [])", OF this]
  have "length (fst (meshScan c)) = 32 * length (emittedFaces c)"
    by (simp add: meshScan_emitted)
  then show ?thesis
    using meshScan_faces [of c] by simp
qed

section \<open>Claims on meshing\<close>

text \<open>
  C4. Face culling in \<open>buildMesh\<close>. \<open>addFaceIfExposed\<close> emits the face exactly when the
  adjacent cell, read by the chunk's own \<open>getBlock\<close> (air outside the chunk), is air; an
  emitted face adds 4 vertices of 8 floats and 6 indices; a non-air block adds one face per
  air neighbour and an air block adds nothing. For every chunk, the scan of \<open>buildMesh\<close>
  emits exactly the faces \<open>(cell, face)\<close> with the cell in the chunk and not air and the
  adjacent cell air, each once, in scan order; so the mesh has 4 vertices and 6 indices per
  such face, and \<open>buildMesh\<close> stores these counts. Hence a chunk whose only non-air block is
  surrounded by air is meshed to 6 faces (24 vertices, 36 indices); a block with exactly one
  non-air neighbour contributes 5 faces; and a chunk whose only non-air blocks are two
  adjacent cells is meshed to 5 faces for each of them (40 vertices, 60 indices).
\<close>
theorem C4_mesh_faces:
  "addFaceIfExposed c x y z blockType face m
     = (if neighborBlock c x y z face = Air then addFace x y z face blockType m else m)
   \<and> (face \<in> {0..5} \<longrightarrow>
        length (fst (addFace x y z face blockType m)) = length (fst m) + 4 * 8
        \<and> length (snd (addFace x y z face blockType m)) = length (snd m) + 6)
   \<and> (getBlock c x y z = Air \<longrightarrow> meshBlock c x y z m = m)
   \<and> (getBlock c x y z \<noteq> Air \<longrightarrow>
        length (fst (meshBlock c x y z m)) = length (fst m) + 4 * 8 * exposedCount c x y z
        \<and> length (snd (meshBlock c x y z m)) = length (snd m) + 6 * exposedCount c x y z)
   \<and> meshScan c = fold (emitFace c) (emittedFaces c) ([], [])
   \<and> set (emittedFaces c)
        = {((x, y, z), face). (x, y, z) \<in> coordinateCube \<and> face \<in> {0..5}
             \<and> getBlock c x y z \<noteq> Air \<and> neighborBlock c x y z face = Air}
   \<and> distinct (emittedFaces c)
   \<and> length (emittedFaces c) = totalFaces c
   \<and> length (fst (meshScan c)) = 4 * 8 * totalFaces c
   \<and> length (snd (meshScan c)) = 6 * totalFaces c
   \<and> (meshDirty c \<or> \<not> meshBuilt c \<longrightarrow>
        vertexCount (fst (buildMesh (c, gl))) = 4 * totalFaces c
        \<and> indexCount (fst (buildMesh (c, gl))) = 6 * totalFaces c)
   \<and> (isInBounds x y z \<and> getBlock c x y z \<noteq> Air
        \<and> (\<forall>x' y' z'. (x', y', z') \<noteq> (x, y, z) \<longrightarrow> getBlock c x' y' z' = Air)
        \<and> (meshDirty c \<or> \<not> meshBuilt c) \<longrightarrow>
        totalFaces c = 6
        \<and> length (fst (meshScan c)) = 6 * (4 * 8) \<and> length (snd (meshScan c)) = 6 * 6
        \<and> vertexCount (fst (buildMesh (c, gl))) = 24
        \<and> indexCount (fst (buildMesh (c, gl))) = 36)
   \<and> (getBlock c x y z \<noteq> Air \<and> f0 \<in> {0..5} \<and> neighborBlock c x y z f0 \<noteq> Air
        \<and> (\<forall>f \<in> {0..5}. f \<noteq> f0 \<longrightarrow> neighborBlock c x y z f = Air) \<longrightarrow>
        blockFaces c x y z = 5
        \<and> length (fst (meshBlock c x y z m)) = length (fst m) + 5 * (4 * 8)
        \<and> length (snd (meshBlock c x y z m)) = length (snd m) + 5 * 6)
   \<and> (isInBounds x y z \<and> getBlock c x y z \<noteq> Air
        \<and> f0 \<in> {0..5} \<and> neighborBlock c x y z f0 \<noteq> Air
        \<and> (\<forall>p. p \<noteq> (x, y, z) \<and> p \<noteq> faceNeighbor x y z f0 \<longrightarrow> blockAt c p = Air)
        \<and> (meshDirty c \<or> \<not> meshBuilt c) \<longrightarrow>
        blockFaces c x y z = 5
        \<and> (case faceNeighbor x y z f0 of (a, b, d) \<Rightarrow> blockFaces c a b d) = 5
        \<and> totalFaces c = 10
        \<and> length (fst (meshScan c)) = 10 * (4 * 8) \<and> length (snd (meshScan c)) = 10 * 6
        \<and> vertexCount (fst (buildMesh (c, gl))) = 40
        \<and> indexCount (fst (buildMesh (c, gl))) = 60)"
proof -
  have p1: "addFaceIfExposed c x y z blockType face m
     = (if neighborBlock c x y z face = Air then addFace x y z face blockType m else m)"
    by (rule addFaceIfExposed_neighbor)
  have p2: "face \<in> {0..5} \<longrightarrow>
        length (fst (addFace x y z face blockType m)) = length (fst m) + 4 * 8
        \<and> length (snd (addFace x y z face blockType m)) = length (snd m) + 6"
    using addFace_length [of face x y z blockType m] by simp
  have p3: "getBlock c x y z = Air \<longrightarrow> meshBlock c x y z m = m"
    by (simp add: meshBlock_air)
  have p4: "getBlock c x y z \<noteq> Air \<longrightarrow>
        length (fst (meshBlock c x y z m)) = length (fst m) + 4 * 8 * exposedCount c x y z
        \<and> length (snd (meshBlock c x y z m)) = length (snd m) + 6 * exposedCount c x y z"
    using meshBlock_length [of c x y z m] by simp
  have p5: "meshScan c = fold (emitFace c) (emittedFaces c) ([], [])"
    by (rule meshScan_emitted)
  have p6: "set (emittedFaces c)
        = {((x, y, z), face). (x, y, z) \<in> coordinateCube \<and> face \<in> {0..5}
             \<and> getBlock c x y z \<noteq> Air \<and> neighborBlock c x y z face = Air}"
    by (rule emittedFaces_set)
  have p7: "distinct (emittedFaces c)" "length (emittedFaces c) = totalFaces c"
    by (rule emittedFaces_distinct, rule emittedFaces_length)
  have p8: "length (fst (meshScan c)) = 4 * 8 * totalFaces c"
    "length (snd (meshScan c)) = 6 * totalFaces c"
    using meshScan_faces [of c] by simp_all
  have cnt: "vertexCount (fst (buildMesh (c, gl))) = 4 * totalFaces c
        \<and> indexCount (fst (buildMesh (c, gl))) = 6 * totalFaces c"
    if "meshDirty c \<or> \<not> meshBuilt c"
    using buildMesh_counts [OF that, of gl] p8 by simp
  have p10: "isInBounds x y z \<and> getBlock c x y z \<noteq> Air
        \<and> (\<forall>x' y' z'. (x', y', z') \<noteq> (x, y, z) \<longrightarrow> getBlock c x' y' z' = Air)
        \<and> (meshDirty c \<or> \<not> meshBuilt c) \<longrightarrow>
        totalFaces c = 6
        \<and> length (fst (meshScan c)) = 6 * (4 * 8) \<and> length (snd (meshScan c)) = 6 * 6
        \<and> vertexCount (fst (buildMesh (c, gl))) = 24
        \<and> indexCount (fst (buildMesh (c, gl))) = 36"
  proof
    assume a: "isInBounds x y z \<and> getBlock c x y z \<noteq> Air
        \<and> (\<forall>x' y' z'. (x', y', z') \<noteq> (x, y, z) \<longrightarrow> getBlock c x' y' z' = Air)
        \<and> (meshDirty c \<or> \<not> meshBuilt c)"
    then have alone: "\<And>x' y' z'. (x', y', z') \<noteq> (x, y, z) \<Longrightarrow> getBlock c x' y' z' = Air"
      by blast
    have "exposedCount c x y z = 6"
      by (rule exposedCount_all) (rule single_block_neighbors [OF alone])
    then have "blockFaces c x y z = 6"
      using a by (simp add: blockFaces_def)
    then have t: "totalFaces c = 6"
      using totalFaces_single [of x y z c] a alone by simp
    from a have "meshDirty c \<or> \<not> meshBuilt c" by simp
    from cnt [OF this] p8 t show "totalFaces c = 6
        \<and> length (fst (meshScan c)) = 6 * (4 * 8) \<and> length (snd (meshScan c)) = 6 * 6
        \<and> vertexCount (fst (buildMesh (c, gl))) = 24
        \<and> indexCount (fst (buildMesh (c, gl))) = 36"
      by simp
  qed
  have p11: "getBlock c x y z \<noteq> Air \<and> f0 \<in> {0..5} \<and> neighborBlock c x y z f0 \<noteq> Air
        \<and> (\<forall>f \<in> {0..5}. f \<noteq> f0 \<longrightarrow> neighborBlock c x y z f = Air) \<longrightarrow>
        blockFaces c x y z = 5
        \<and> length (fst (meshBlock c x y z m)) = length (fst m) + 5 * (4 * 8)
        \<and> length (snd (meshBlock c x y z m)) = length (snd m) + 5 * 6"
  proof
    assume a: "getBlock c x y z \<noteq> Air \<and> f0 \<in> {0..5} \<and> neighborBlock c x y z f0 \<noteq> Air
        \<and> (\<forall>f \<in> {0..5}. f \<noteq> f0 \<longrightarrow> neighborBlock c x y z f = Air)"
    then have "exposedCount c x y z = 5"
      by (intro exposedCount_one_solid [of f0]) auto
    then show "blockFaces c x y z = 5
        \<and> length (fst (meshBlock c x y z m)) = length (fst m) + 5 * (4 * 8)
        \<and> length (snd (meshBlock c x y z m)) = length (snd m) + 5 * 6"
      using a meshBlock_length [of c x y z m] by (simp add: blockFaces_def)
  qed
  have p12: "isInBounds x y z \<and> getBlock c x y z \<noteq> Air
        \<and> f0 \<in> {0..5} \<and> neighborBlock c x y z f0 \<noteq> Air
        \<and> (\<forall>p. p \<noteq> (x, y, z) \<and> p \<noteq> faceNeighbor x y z f0 \<longrightarrow> blockAt c p = Air)
        \<and> (meshDirty c \<or> \<not> meshBuilt c) \<longrightarrow>
        blockFaces c x y z = 5
        \<and> (case faceNeighbor x y z f0 of (a, b, d) \<Rightarrow> blockFaces c a b d) = 5
        \<and> totalFaces c = 10
        \<and> length (fst (meshScan c)) = 10 * (4 * 8) \<and> length (snd (meshScan c)) = 10 * 6
        \<and> vertexCount (fst (buildMesh (c, gl))) = 40
        \<and> indexCount (fst (buildMesh (c, gl))) = 60"
  proof
    assume a: "isInBounds x y z \<and> getBlock c x y z \<noteq> Air
        \<and> f0 \<in> {0..5} \<and> neighborBlock c x y z f0 \<noteq> Air
        \<and> (\<forall>p. p \<noteq> (x, y, z) \<and> p \<noteq> faceNeighbor x y z f0 \<longrightarrow> blockAt c p = Air)
        \<and> (meshDirty c \<or> \<not> meshBuilt c)"
    obtain a b d where n: "faceNeighbor x y z f0 = (a, b, d)"
      by (cases "faceNeighbor x y z f0")
    from a have f0: "f0 \<in> {0..5}" and here: "getBlock c x y z \<noteq> Air" and ib: "isInBounds x y z"
      by simp_all
    from a have there: "getBlock c a b d \<noteq> Air"
      by (simp add: neighborBlock_def blockAt_def n)
    then have ib': "isInBounds a b d"
      using getBlock_oob [of a b d c] by blast
    have ne: "(a, b, d) \<noteq> (x, y, z)"
      using neighbor_differs [OF f0, of x y z] n by simp
    have rest: "getBlock c x' y' z' = Air"
      if "(x', y', z') \<noteq> (x, y, z)" "(x', y', z') \<noteq> (a, b, d)" for x' y' z'
    proof -
      from a have "(x', y', z') \<noteq> (x, y, z) \<and> (x', y', z') \<noteq> faceNeighbor x y z f0
          \<longrightarrow> blockAt c (x', y', z') = Air"
        by blast
      with that show ?thesis by (simp add: n blockAt_def)
    qed
    have five: "blockFaces c x y z = 5 \<and> blockFaces c a b d = 5"
      using f0 n here there rest by (rule pair_faces)
    have "totalFaces c = blockFaces c x y z + blockFaces c a b d"
      using ib ib' ne rest by (rule totalFaces_pair)
    with five have t: "totalFaces c = 10" by simp
    from a have "meshDirty c \<or> \<not> meshBuilt c" by simp
    from cnt [OF this] p8 t five show "blockFaces c x y z = 5
        \<and> (case faceNeighbor x y z f0 of (a, b, d) \<Rightarrow> blockFaces c a b d) = 5
        \<and> totalFaces c = 10
        \<and> length (fst (meshScan c)) = 10 * (4 * 8) \<and> length (snd (meshScan c)) = 10 * 6
        \<and> vertexCount (fst (buildMesh (c, gl))) = 40
        \<and> indexCount (fst (buildMesh (c, gl))) = 60"
      by (simp add: n)
  qed
  from p1 p2 p3 p4 p5 p6 p7 p8 cnt p10 p11 p12 show ?thesis
    by blast
qed

theorem C4_mesh_faces_witness:
  "isInBounds 1 1 1
   \<and> getBlock (setBlock (Chunk_new 0 0 0 0) 1 1 1 Stone) 1 1 1 \<noteq> Air
   \<and> meshDirty (setBlock (Chunk_new 0 0 0 0) 1 1 1 Stone)
   \<and> vertexCount (fst (buildMesh (setBlock (Chunk_new 0 0 0 0) 1 1 1 Stone, gl_init))) = 24
   \<and> indexCount (fst (buildMesh (setBlock (Chunk_new 0 0 0 0) 1 1 1 Stone, gl_init))) = 36
   \<and> neighborBlock (setBlock (setBlock (Chunk_new 0 0 0 0) 1 1 1 Stone) 1 2 1 Dirt) 1 1 1 5 \<noteq> Air
   \<and> length (fst (meshBlock (setBlock (setBlock (Chunk_new 0 0 0 0) 1 1 1 Stone) 1 2 1 Dirt)
                     1 1 1 ([], []))) = 160
   \<and> length (snd (meshBlock (setBlock (setBlock (Chunk_new 0 0 0 0) 1 1 1 Stone) 1 2 1 Dirt)
                     1 1 1 ([], []))) = 30
   \<and> totalFaces (setBlock (setBlock (Chunk_new 0 0 0 0) 1 1 1 Stone) 1 2 1 Dirt) = 10
   \<and> vertexCount (fst (buildMesh
        (setBlock (setBlock (Chunk_new 0 0 0 0) 1 1 1 Stone) 1 2 1 Dirt, gl_init))) = 40
   \<and> indexCount (fst (buildMesh
        (setBlock (setBlock (Chunk_new 0 0 0 0) 1 1 1 Stone) 1 2 1 Dirt, gl_init))) = 60
   \<and> length (fst (addFace 1 1 1 0 Stone ([], []))) = 32
   \<and> meshBlock (Chunk_new 0 0 0 0) 1 1 1 ([], []) = ([], [])"
proof -
  define c1 where "c1 = setBlock (Chunk_new 0 0 0 0) 1 1 1 Stone"
  define c2 where "c2 = setBlock c1 1 2 1 Dirt"
  have b: "isInBounds 1 1 1" "isInBounds 1 2 1"
    by (simp_all add: isInBounds_def CHUNK_SIZE_def CHUNK_HEIGHT_def)
  have s1: "chunk_sized c1"
    unfolding c1_def by (intro setBlock_sized Chunk_new_sized)
  have g1: "getBlock c1 x y z = (if (x, y, z) = (1, 1, 1) then Stone else Air)" for x y z
    unfolding c1_def by (simp add: getBlock_setBlock Chunk_new_sized Chunk_new_air b)
  have g2: "getBlock c2 x y z
      = (if (x, y, z) = (1, 2, 1) then Dirt else if (x, y, z) = (1, 1, 1) then Stone else Air)"
    for x y z
    unfolding c2_def by (simp add: getBlock_setBlock s1 g1 b)
  have d1: "meshDirty c1"
    unfolding c1_def by (simp add: setBlock_flags b)
  have d2: "meshDirty c2"
    unfolding c2_def by (simp add: setBlock_flags b)
  have n2: "neighborBlock c2 1 1 1 f = (if f = 5 then Dirt else Air)" if "f \<in> {0..5}" for f
    using face_cases [OF that]
    by (auto simp add: neighborBlock_def faceNeighbor_def blockAt_def g2)
  have fn: "faceNeighbor 1 1 1 5 = (1, 2, 1)"
    by (simp add: faceNeighbor_def)
  have rest: "\<forall>p. p \<noteq> (1, 1, 1) \<and> p \<noteq> faceNeighbor 1 1 1 5 \<longrightarrow> blockAt c2 p = Air"
    by (auto simp add: fn blockAt_def g2)
  have w1: "vertexCount (fst (buildMesh (c1, gl_init))) = 24
      \<and> indexCount (fst (buildMesh (c1, gl_init))) = 36"
    using C4_mesh_faces [of c1 1 1 1 Stone 0 "([], [])" gl_init 5] b d1
    by (simp add: g1)
  have w2: "length (fst (meshBlock c2 1 1 1 ([], []))) = 160
      \<and> length (snd (meshBlock c2 1 1 1 ([], []))) = 30"
    using C4_mesh_faces [of c2 1 1 1 Stone 0 "([], [])" gl_init 5]
    by (simp add: g2 n2)
  have w3: "totalFaces c2 = 10
      \<and> vertexCount (fst (buildMesh (c2, gl_init))) = 40
      \<and> indexCount (fst (buildMesh (c2, gl_init))) = 60"
    using C4_mesh_faces [of c2 1 1 1 Stone 0 "([], [])" gl_init 5] b d2 rest
    by (simp add: g2 n2)
  have w4: "length (fst (addFace 1 1 1 0 Stone ([], []))) = 32"
    using C4_mesh_faces [of c1 1 1 1 Stone 0 "([], [])" gl_init 5]
    by simp
  have w5: "meshBlock (Chunk_new 0 0 0 0) 1 1 1 ([], []) = ([], [])"
    using C4_mesh_faces [of "Chunk_new 0 0 0 0" 1 1 1 Stone 0 "([], [])" gl_init 5]
    by (simp add: Chunk_new_air)
  show ?thesis
    using b(1) d1 w1 w2 w3 w4 w5
    by (simp add: g1 n2 c1_def [symmetric] c2_def [symmetric])
qed

section \<open>Claims on buildMesh\<close>

text \<open>
  C5. \<open>buildMesh\<close> returns at once, changing neither the chunk nor the OpenGL state,
  unless the chunk is dirty or was never built; otherwise it recomputes the mesh from the
  blocks and uploads it. In both cases it leaves \<open>meshDirty = False\<close> and
  \<open>meshBuilt = True\<close>. A second call with no write in between is the identity: the same
  buffer contents and no name generated. Names are generated only when the chunk was not
  built: one vertex array and two buffers; a rebuild of a built chunk keeps \<open>vao\<close>,
  \<open>vbo\<close>, \<open>ebo\<close> and generates nothing.
\<close>
theorem C5_buildMesh_idempotent:
  "(\<not> meshDirty c \<and> meshBuilt c \<longrightarrow> buildMesh (c, gl) = (c, gl))
   \<and> (meshDirty c \<or> \<not> meshBuilt c \<longrightarrow>
        vertexCount (fst (buildMesh (c, gl))) = length (fst (meshScan c)) div 8
        \<and> indexCount (fst (buildMesh (c, gl))) = length (snd (meshScan c)))
   \<and> \<not> meshDirty (fst (buildMesh (c, gl))) \<and> meshBuilt (fst (buildMesh (c, gl)))
   \<and> blocks (fst (buildMesh (c, gl))) = blocks c
   \<and> buildMesh (buildMesh (c, gl)) = buildMesh (c, gl)
   \<and> bufferStore (snd (buildMesh (buildMesh (c, gl)))) = bufferStore (snd (buildMesh (c, gl)))
   \<and> vertexArrayNames (snd (buildMesh (buildMesh (c, gl))))
        = vertexArrayNames (snd (buildMesh (c, gl)))
   \<and> bufferNames (snd (buildMesh (buildMesh (c, gl)))) = bufferNames (snd (buildMesh (c, gl)))
   \<and> (meshBuilt c \<longrightarrow>
        vertexArrayNames (snd (buildMesh (c, gl))) = vertexArrayNames gl
        \<and> bufferNames (snd (buildMesh (c, gl))) = bufferNames gl
        \<and> vao (fst (buildMesh (c, gl))) = vao c
        \<and> vbo (fst (buildMesh (c, gl))) = vbo c
        \<and> ebo (fst (buildMesh (c, gl))) = ebo c)
   \<and> (\<not> meshBuilt c \<longrightarrow>
        vertexArrayNames (snd (buildMesh (c, gl))) = vertexArrayNames gl + 1
        \<and> bufferNames (snd (buildMesh (c, gl))) = bufferNames gl + 2
        \<and> bufferStore (snd (buildMesh (c, gl))) (vbo (fst (buildMesh (c, gl))))
            = Some (FloatData (fst (meshScan c)))
        \<and> bufferStore (snd (buildMesh (c, gl))) (ebo (fst (buildMesh (c, gl))))
            = Some (UIntData (snd (meshScan c))))"
proof (intro conjI impI)
  show "buildMesh (c, gl) = (c, gl)" if "\<not> meshDirty c \<and> meshBuilt c"
    using that by (simp add: buildMesh_clean)
  show "vertexCount (fst (buildMesh (c, gl))) = length (fst (meshScan c)) div 8"
    "indexCount (fst (buildMesh (c, gl))) = length (snd (meshScan c))"
    if "meshDirty c \<or> \<not> meshBuilt c"
    using buildMesh_counts [OF that, of gl] by simp_all
  show "\<not> meshDirty (fst (buildMesh (c, gl)))" "meshBuilt (fst (buildMesh (c, gl)))"
    using buildMesh_flags [of "(c, gl)"] by simp_all
  show "blocks (fst (buildMesh (c, gl))) = blocks c"
    using buildMesh_blocks [of "(c, gl)"] by simp
  show "buildMesh (buildMesh (c, gl)) = buildMesh (c, gl)"
    by (rule buildMesh_idem)
  show "bufferStore (snd (buildMesh (buildMesh (c, gl)))) = bufferStore (snd (buildMesh (c, gl)))"
    "vertexArrayNames (snd (buildMesh (buildMesh (c, gl))))
        = vertexArrayNames (snd (buildMesh (c, gl)))"
    "bufferNames (snd (buildMesh (buildMesh (c, gl)))) = bufferNames (snd (buildMesh (c, gl)))"
    by (simp_all only: buildMesh_idem)
  show "vertexArrayNames (snd (buildMesh (c, gl))) = vertexArrayNames gl"
    "bufferNames (snd (buildMesh (c, gl))) = bufferNames gl"
    "vao (fst (buildMesh (c, gl))) = vao c"
    "vbo (fst (buildMesh (c, gl))) = vbo c"
    "ebo (fst (buildMesh (c, gl))) = ebo c"
    if "meshBuilt c"
    using buildMesh_rebuild_names [OF that, of gl] by simp_all
next
  assume n: "\<not> meshBuilt c"
  note f = buildMesh_first_names [OF n, of gl]
  show "vertexArrayNames (snd (buildMesh (c, gl))) = vertexArrayNames gl + 1"
    "bufferNames (snd (buildMesh (c, gl))) = bufferNames gl + 2"
    using f by simp_all
  show "bufferStore (snd (buildMesh (c, gl))) (vbo (fst (buildMesh (c, gl))))
            = Some (FloatData (fst (meshScan c)))"
    "bufferStore (snd (buildMesh (c, gl))) (ebo (fst (buildMesh (c, gl))))
            = Some (UIntData (snd (meshScan c)))"
    using buildMesh_upload_first [OF n, of gl] f by simp_all
qed

lemma Chunk_new_flags:
  "meshDirty (Chunk_new cx cy cz w) \<and> \<not> meshBuilt (Chunk_new cx cy cz w)"
  by (simp add: Chunk_new_def)

theorem C5_buildMesh_idempotent_witness:
  "buildMesh ((Chunk_new 0 0 0 0)\<lparr> meshDirty := False, meshBuilt := True \<rparr>, gl_init)
     = ((Chunk_new 0 0 0 0)\<lparr> meshDirty := False, meshBuilt := True \<rparr>, gl_init)
   \<and> buildMesh (buildMesh (Chunk_new 0 0 0 0, gl_init)) = buildMesh (Chunk_new 0 0 0 0, gl_init)
   \<and> vertexArrayNames (snd (buildMesh (Chunk_new 0 0 0 0, gl_init))) = 1
   \<and> bufferNames (snd (buildMesh (Chunk_new 0 0 0 0, gl_init))) = 2
   \<and> vertexCount (fst (buildMesh (Chunk_new 0 0 0 0, gl_init))) = 0
   \<and> bufferNames (snd (buildMesh ((Chunk_new 0 0 0 0)\<lparr> meshBuilt := True \<rparr>, gl_init))) = 0
   \<and> vbo (fst (buildMesh ((Chunk_new 0 0 0 0)\<lparr> meshBuilt := True, vbo := 7 \<rparr>, gl_init))) = 7"
proof -
  have m: "meshScan (Chunk_new 0 0 0 0) = ([], [])"
    by (rule meshScan_all_air) (rule Chunk_new_air)
  have "buildMesh ((Chunk_new 0 0 0 0)\<lparr> meshDirty := False, meshBuilt := True \<rparr>, gl_init)
     = ((Chunk_new 0 0 0 0)\<lparr> meshDirty := False, meshBuilt := True \<rparr>, gl_init)"
    using C5_buildMesh_idempotent
      [of "(Chunk_new 0 0 0 0)\<lparr> meshDirty := False, meshBuilt := True \<rparr>" gl_init]
    by simp
  moreover have "buildMesh (buildMesh (Chunk_new 0 0 0 0, gl_init))
        = buildMesh (Chunk_new 0 0 0 0, gl_init)
      \<and> vertexArrayNames (snd (buildMesh (Chunk_new 0 0 0 0, gl_init))) = 1
      \<and> bufferNames (snd (buildMesh (Chunk_new 0 0 0 0, gl_init))) = 2
      \<and> vertexCount (fst (buildMesh (Chunk_new 0 0 0 0, gl_init))) = 0"
    using C5_buildMesh_idempotent [of "Chunk_new 0 0 0 0" gl_init] Chunk_new_flags [of 0 0 0 0]
    by (simp add: m gl_init_def)
  moreover have
    "bufferNames (snd (buildMesh ((Chunk_new 0 0 0 0)\<lparr> meshBuilt := True \<rparr>, gl_init))) = 0"
    using C5_buildMesh_idempotent [of "(Chunk_new 0 0 0 0)\<lparr> meshBuilt := True \<rparr>" gl_init]
    by (simp add: gl_init_def)
  moreover have
    "vbo (fst (buildMesh ((Chunk_new 0 0 0 0)\<lparr> meshBuilt := True, vbo := 7 \<rparr>, gl_init))) = 7"
    using C5_buildMesh_idempotent
      [of "(Chunk_new 0 0 0 0)\<lparr> meshBuilt := True, vbo := 7 \<rparr>" gl_init]
    by simp
  ultimately show ?thesis
    by (intro conjI) simp_all
qed

section \<open>Claims on the dirty flag\<close>

text \<open>
  C9 as stated fails: on a chunk whose mesh has been built (dirty flag cleared),
  \<open>setBlock\<close> with the out-of-bounds coordinate \<open>(-1, 0, 0)\<close> leaves the flag cleared.
\<close>
theorem C9_setBlock_dirty_counterexample:
  "\<not> meshDirty (setBlock (fst (buildMesh (Chunk_new 0 0 0 0, gl_init))) (-1) 0 0 Stone)"
proof -
  have "\<not> isInBounds (-1) 0 0"
    by (simp add: isInBounds_def)
  then show ?thesis
    using buildMesh_flags [of "(Chunk_new 0 0 0 0, gl_init)"]
    by (simp add: setBlock_oob)
qed

text \<open>
  C9, amended. \<open>setBlock\<close> at a coordinate inside \<open>[0,16) \<times> [0,256) \<times> [0,16)\<close> returns
  with the dirty flag set, for every block type and every prior state; at a coordinate
  outside it returns with the dirty flag as it was.
\<close>
theorem C9_setBlock_dirty_in_bounds:
  "(0 \<le> x \<and> x < 16 \<and> 0 \<le> y \<and> y < 256 \<and> 0 \<le> z \<and> z < 16 \<longrightarrow>
      meshDirty (setBlock c x y z T))
   \<and> (\<not> (0 \<le> x \<and> x < 16 \<and> 0 \<le> y \<and> y < 256 \<and> 0 \<le> z \<and> z < 16) \<longrightarrow>
      meshDirty (setBlock c x y z T) = meshDirty c)"
  by (simp add: setBlock_def isInBounds_def CHUNK_SIZE_def CHUNK_HEIGHT_def)

theorem C9_setBlock_dirty_in_bounds_witness:
  "((0::int) \<le> 15 \<and> (15::int) < 16 \<and> (0::int) \<le> 255 \<and> (255::int) < 256
      \<and> (0::int) \<le> 0 \<and> (0::int) < 16)
   \<and> meshDirty (setBlock ((Chunk_new 0 0 0 0)\<lparr> meshDirty := False \<rparr>) 15 255 0 Air)
   \<and> \<not> ((0::int) \<le> 15 \<and> (15::int) < 16 \<and> (0::int) \<le> 256 \<and> (256::int) < 256
      \<and> (0::int) \<le> 0 \<and> (0::int) < 16)
   \<and> \<not> meshDirty (setBlock ((Chunk_new 0 0 0 0)\<lparr> meshDirty := False \<rparr>) 15 256 0 Air)"
  using
    C9_setBlock_dirty_in_bounds [of 15 255 0 "(Chunk_new 0 0 0 0)\<lparr> meshDirty := False \<rparr>" Air]
    C9_setBlock_dirty_in_bounds [of 15 256 0 "(Chunk_new 0 0 0 0)\<lparr> meshDirty := False \<rparr>" Air]
  by simp

section \<open>Claims on the constructor\<close>

text \<open>
  C10. A chunk as the constructor leaves it: every one of its 65536 cells is air,
  \<open>getBlock\<close> returns air everywhere, the dirty flag is set and the built flag is not.
  So \<open>buildMesh\<close> on it does not take the early return: it generates the three OpenGL
  names, uploads the (empty) mesh of the all-air chunk and marks the chunk built and clean.
\<close>
theorem C10_fresh_chunk:
  "blocks (Chunk_new cx cy cz w) = replicate 65536 Air
   \<and> getBlock (Chunk_new cx cy cz w) x y z = Air
   \<and> meshDirty (Chunk_new cx cy cz w) \<and> \<not> meshBuilt (Chunk_new cx cy cz w)
   \<and> buildMesh (Chunk_new cx cy cz w, gl) \<noteq> (Chunk_new cx cy cz w, gl)
   \<and> meshBuilt (fst (buildMesh (Chunk_new cx cy cz w, gl)))
   \<and> \<not> meshDirty (fst (buildMesh (Chunk_new cx cy cz w, gl)))
   \<and> vertexArrayNames (snd (buildMesh (Chunk_new cx cy cz w, gl))) = vertexArrayNames gl + 1
   \<and> bufferNames (snd (buildMesh (Chunk_new cx cy cz w, gl))) = bufferNames gl + 2
   \<and> vertexCount (fst (buildMesh (Chunk_new cx cy cz w, gl))) = 0
   \<and> indexCount (fst (buildMesh (Chunk_new cx cy cz w, gl))) = 0
   \<and> bufferStore (snd (buildMesh (Chunk_new cx cy cz w, gl)))
        (vbo (fst (buildMesh (Chunk_new cx cy cz w, gl)))) = Some (FloatData [])
   \<and> bufferStore (snd (buildMesh (Chunk_new cx cy cz w, gl)))
        (ebo (fst (buildMesh (Chunk_new cx cy cz w, gl)))) = Some (UIntData [])"
proof -
  define c where "c = Chunk_new cx cy cz w"
  have fl: "meshDirty c" "\<not> meshBuilt c"
    unfolding c_def using Chunk_new_flags [of cx cy cz w] by simp_all
  have m: "meshScan c = ([], [])"
    unfolding c_def by (rule meshScan_all_air) (rule Chunk_new_air)
  have bl: "blocks c = replicate 65536 Air"
    unfolding c_def by (simp add: Chunk_new_def CHUNK_SIZE_def CHUNK_HEIGHT_def)
  have air: "getBlock c x y z = Air"
    unfolding c_def by (rule Chunk_new_air)
  note n = buildMesh_first_names [OF fl(2), of gl]
  note u = buildMesh_upload_first [OF fl(2), of gl]
  note k = buildMesh_counts [of c gl]
  note g = buildMesh_flags [of "(c, gl)"]
  have ne: "buildMesh (c, gl) \<noteq> (c, gl)"
  proof
    assume "buildMesh (c, gl) = (c, gl)"
    then have "meshBuilt (fst (buildMesh (c, gl))) = meshBuilt c" by simp
    with g fl show False by simp
  qed
  show ?thesis
    unfolding c_def [symmetric]
    using bl air fl ne g n u k by (simp add: m)
qed

section \<open>Claims on the chunk key\<close>

lemma chunkKey_inner:
  assumes "chunkKey x1 z1 = chunkKey x2 z2"
  shows "push_bit 16 x1 OR (z1 AND 0xFFFF) = push_bit 16 x2 OR (z2 AND 0xFFFF)"
proof -
  have up: "is_up (scast :: 32 word \<Rightarrow> 64 word)"
    by (simp add: is_up)
  have "(scast (chunkKey x1 z1) :: 32 word) = scast (chunkKey x2 z2)"
    using assms by simp
  then show ?thesis
    by (simp add: chunkKey_def scast_up_scast_id [OF up])
qed

lemma mask16: "(0xFFFF :: 32 word) = mask 16"
  by (simp add: mask_eq_exp_minus_1)

lemma key_bit:
  fixes x z :: "32 word"
  shows "bit (push_bit 16 x OR (z AND 0xFFFF)) n
       \<longleftrightarrow> (if n < 16 then bit z n else n < 32 \<and> bit x (n - 16))"
  unfolding mask16 by (auto simp add: bit_simps)

lemma short_bits:
  fixes w :: "32 word"
  assumes "- 32768 \<le> sint w" and "sint w < 32768" and "n < 32"
  shows "bit w n = bit w (min n 15)"
proof -
  have "signed_take_bit 15 (sint w) = sint w"
    using assms(1,2) by (simp add: signed_take_bit_int_eq_self)
  then have "bit (sint w) n = bit (signed_take_bit 15 (sint w)) n"
    by simp
  also have "\<dots> = bit (sint w) (min 15 n)"
    by (simp add: bit_signed_take_bit_iff)
  finally show ?thesis
    using assms(3) by (simp add: bit_sint_iff min.commute)
qed

lemma short_eqI:
  fixes v w :: "32 word"
  assumes "- 32768 \<le> sint v" "sint v < 32768" "- 32768 \<le> sint w" "sint w < 32768"
    and "\<And>n. n < 16 \<Longrightarrow> bit v n = bit w n"
  shows "v = w"
proof (rule bit_word_eqI)
  fix n
  assume "n < LENGTH(32)"
  then have n: "n < 32" by simp
  have "bit v n = bit v (min n 15)"
    using assms(1,2) n by (rule short_bits)
  also have "\<dots> = bit w (min n 15)"
    by (rule assms(5)) simp
  also have "\<dots> = bit w n"
    using short_bits [OF assms(3,4) n] by simp
  finally show "bit v n = bit w n" .
qed

text \<open>
  C6 as stated fails: the chunk coordinates \<open>(0, -1)\<close> and \<open>(0, 65535)\<close> are distinct
  pairs of \<^verbatim>\<open>int\<close> values and have the same key, since only the low 16 bits of
  \<open>chunkZ\<close> enter the key; and so do \<open>(32768, 0)\<close> and \<open>(-32768, 0)\<close>, since the
  shift of the 32-bit \<open>chunkX\<close> keeps only its low 16 bits.
\<close>
theorem C6_chunkKey_collision_counterexample:
  "chunkKey 0 (- 1) = chunkKey 0 65535
   \<and> (0 :: 32 word, - 1 :: 32 word) \<noteq> (0, 65535)
   \<and> sint (- 1 :: 32 word) = - 1 \<and> sint (65535 :: 32 word) = 65535
   \<and> chunkKey 32768 0 = chunkKey (- 32768) 0
   \<and> (32768 :: 32 word, 0 :: 32 word) \<noteq> (- 32768, 0)
   \<and> sint (32768 :: 32 word) = 32768 \<and> sint (- 32768 :: 32 word) = - 32768"
  by (simp add: chunkKey_def)

text \<open>
  C6, amended. For chunk coordinates whose two components lie in the signed 16-bit range
  \<open>[-32768, 32767]\<close>, distinct pairs have distinct keys.
\<close>
theorem C6_chunkKey_injective_16bit:
  assumes "- 32768 \<le> sint x1" "sint x1 < 32768" "- 32768 \<le> sint z1" "sint z1 < 32768"
    and "- 32768 \<le> sint x2" "sint x2 < 32768" "- 32768 \<le> sint z2" "sint z2 < 32768"
    and "(x1, z1) \<noteq> (x2, z2)"
  shows "chunkKey x1 z1 \<noteq> chunkKey x2 z2"
proof
  assume "chunkKey x1 z1 = chunkKey x2 z2"
  then have k: "push_bit 16 x1 OR (z1 AND 0xFFFF) = push_bit 16 x2 OR (z2 AND 0xFFFF)"
    by (rule chunkKey_inner)
  have kb: "bit (push_bit 16 x1 OR (z1 AND 0xFFFF)) n = bit (push_bit 16 x2 OR (z2 AND 0xFFFF)) n"
    for n
    by (simp only: k)
  have "z1 = z2"
  proof (rule short_eqI [OF assms(3,4,7,8)])
    fix n :: nat
    assume "n < 16"
    then show "bit z1 n = bit z2 n"
      using kb [of n] by (simp add: key_bit)
  qed
  moreover have "x1 = x2"
  proof (rule short_eqI [OF assms(1,2,5,6)])
    fix n :: nat
    assume "n < 16"
    then show "bit x1 n = bit x2 n"
      using kb [of "n + 16"] by (simp add: key_bit)
  qed
  ultimately show False
    using assms(9) by simp
qed

theorem C6_chunkKey_injective_16bit_witness:
  "- 32768 \<le> sint (- 32768 :: 32 word) \<and> sint (- 32768 :: 32 word) < 32768
   \<and> - 32768 \<le> sint (- 1 :: 32 word) \<and> sint (- 1 :: 32 word) < 32768
   \<and> - 32768 \<le> sint (32767 :: 32 word) \<and> sint (32767 :: 32 word) < 32768
   \<and> (- 32768 :: 32 word, - 1 :: 32 word) \<noteq> (- 32768, 32767)
   \<and> chunkKey (- 32768) (- 1) \<noteq> chunkKey (- 32768) 32767"
  using C6_chunkKey_injective_16bit [of "- 32768" "- 1" "- 32768" 32767]
  by simp

end
